theory Spec2Isabelle
  imports Main "HOL-Library.AList"
begin

section \<open>JavaScript values\<close>

text \<open>
  The program is TypeScript; its types are erased at run time, so every value that flows
  through \<open>Result\<close>, the generators and the formatters is a JavaScript value. The
  universe below has the values the program handles:
  \<^item> the primitives \<open>undefined\<close>, \<open>null\<close>, booleans, integral numbers and strings;
  \<^item> \<open>JBuffer\<close>: binary data (a \<open>Buffer\<close>), as its bytes;
  \<^item> \<open>JArr\<close>: an array;
  \<^item> \<open>JObj\<close>: a plain object, as the list of its own enumerable properties in
    insertion order;
  \<^item> \<open>JError name message props\<close>: an instance of \<open>Error\<close> (or of a subclass called
    \<open>name\<close>). The constructor \<open>new Error(message)\<close> stores \<open>message\<close> as an own
    property that is \<^emph>\<open>not enumerable\<close> (ECMA-262, Error constructor, step
    CreateNonEnumerableDataPropertyOrThrow), and stores nothing when called with no
    argument; \<open>stack\<close> is not enumerable either and is not modelled. \<open>props\<close> are the
    own enumerable properties a subclass or a caller added;
  \<^item> \<open>JReadable chunks failure\<close>: a \<open>stream.Readable\<close> that delivers \<open>chunks\<close> and
    then either ends (\<open>None\<close>) or fails with a cause (\<open>Some cause\<close>).

  Strings are byte strings (UTF-8), numbers are integers; functions, symbols, bigints,
  accessors and proxies are outside the model.
\<close>

datatype jsval =
    JUndefined
  | JNull
  | JBool bool
  | JNum int
  | JStr string
  | JBuffer string
  | JArr "jsval list"
  | JObj "(string \<times> jsval) list"
  | JError string "string option" "(string \<times> jsval) list"
  | JReadable "jsval list" "jsval option"

text \<open>\<open>typeof v\<close>\<close>

fun typeof :: "jsval \<Rightarrow> string" where
  "typeof JUndefined = ''undefined''"
| "typeof (JBool b) = ''boolean''"
| "typeof (JNum n) = ''number''"
| "typeof (JStr s) = ''string''"
| "typeof v = ''object''"

text \<open>\<open>v instanceof Error\<close>\<close>

fun instanceof_Error :: "jsval \<Rightarrow> bool" where
  "instanceof_Error (JError name msg props) = True"
| "instanceof_Error v = False"

text \<open>
  \<open>o[k]\<close> (and \<open>o.k\<close>): the own property, then the prototype. \<open>Error.prototype\<close>
  carries \<open>message = ""\<close> and \<open>name\<close>. The program reads no property of
  \<open>Object.prototype\<close>, so plain objects answer from their own properties only.
\<close>

fun get_prop :: "jsval \<Rightarrow> string \<Rightarrow> jsval" where
  "get_prop (JObj props) k = (case map_of props k of Some v \<Rightarrow> v | None \<Rightarrow> JUndefined)"
| "get_prop (JError name msg props) k =
     (case map_of props k of
        Some v \<Rightarrow> v
      | None \<Rightarrow>
          if k = ''message'' then (case msg of Some m \<Rightarrow> JStr m | None \<Rightarrow> JStr '''')
          else if k = ''name'' then JStr name
          else JUndefined)"
| "get_prop v k = JUndefined"

text \<open>
  \<open>k in o\<close>, for the two names the program asks about (\<open>value\<close> and \<open>message\<close>):
  an own property of any kind, or one inherited from \<open>Error.prototype\<close>. The right
  operand is an object wherever the program uses \<open>in\<close>.
\<close>

fun in_op :: "string \<Rightarrow> jsval \<Rightarrow> bool" where
  "in_op k (JObj props) = (k \<in> set (map fst props))"
| "in_op k (JError name msg props) =
     (k \<in> set (map fst props) \<or> k = ''message'' \<or> k = ''name'')"
| "in_op k v = False"

text \<open>
  \<open>o[k] = v\<close> on a plain object: the property is overwritten in place or appended.
  Assigning to \<open>__proto__\<close> runs the inherited setter and creates no own property.
\<close>

definition set_prop :: "string \<Rightarrow> jsval \<Rightarrow> (string \<times> jsval) list \<Rightarrow> (string \<times> jsval) list" where
  "set_prop k v props = (if k = ''__proto__'' then props else AList.update k v props)"

text \<open>\<open>delete o[k]\<close>\<close>

definition delete_prop :: "string \<Rightarrow> (string \<times> jsval) list \<Rightarrow> (string \<times> jsval) list" where
  "delete_prop k props = AList.delete k props"

text \<open>
  Object spread \<open>{...v}\<close> copies the own \<^emph>\<open>enumerable\<close> properties (CopyDataProperties):
  all of a plain object's, only the added ones of an \<open>Error\<close> (its \<open>message\<close> is an
  own property that is not enumerable, which is why \<open>formatError\<close> in \<open>lookup.ts\<close>
  lists \<open>Object.getOwnPropertyNames(error)\<close> to print one), the indices of an array,
  a buffer or a string, nothing of another primitive. Indices are property names in
  decimal.
\<close>

definition digit_char :: "nat \<Rightarrow> char" where
  "digit_char n = ''0123456789'' ! n"

fun nat_digits :: "nat \<Rightarrow> string" where
  "nat_digits n = (if n < 10 then [digit_char n] else nat_digits (n div 10) @ [digit_char (n mod 10)])"

declare nat_digits.simps [simp del]

definition int_digits :: "int \<Rightarrow> string" where
  "int_digits i = (if i < 0 then CHR ''-'' # nat_digits (nat (- i)) else nat_digits (nat i))"

fun indexed :: "nat \<Rightarrow> 'a list \<Rightarrow> (string \<times> 'a) list" where
  "indexed n [] = []"
| "indexed n (x # xs) = (nat_digits n, x) # indexed (Suc n) xs"

fun own_enumerable :: "jsval \<Rightarrow> (string \<times> jsval) list" where
  "own_enumerable (JObj props) = props"
| "own_enumerable (JError name msg props) = props"
| "own_enumerable (JArr xs) = indexed 0 xs"
| "own_enumerable (JBuffer bs) = indexed 0 (map (\<lambda>c. JNum (of_char c)) bs)"
| "own_enumerable (JStr s) = indexed 0 (map (\<lambda>c. JStr [c]) s)"
| "own_enumerable v = []"

text \<open>\<open>{...a, ...b}\<close>: the properties of \<open>a\<close>, then those of \<open>b\<close> defined over them.\<close>

definition spread2 :: "jsval \<Rightarrow> jsval \<Rightarrow> jsval" where
  "spread2 a b = JObj (fold (\<lambda>(k, v). AList.update k v) (own_enumerable b)
                        (fold (\<lambda>(k, v). AList.update k v) (own_enumerable a) []))"

text \<open>
  \<open>String(v)\<close>: the primitives print as JavaScript prints them; an array joins its
  elements with commas (\<open>null\<close> and \<open>undefined\<close> elements print empty); a plain object
  and a stream print \<open>[object Object]\<close>; an error prints \<open>name: message\<close> (its
  added properties are taken not to shadow \<open>name\<close> and \<open>message\<close>).
\<close>

fun join_commas :: "string list \<Rightarrow> string" where
  "join_commas [] = []"
| "join_commas [s] = s"
| "join_commas (s # t # ss) = s @ '','' @ join_commas (t # ss)"

fun String :: "jsval \<Rightarrow> string" where
  "String JUndefined = ''undefined''"
| "String JNull = ''null''"
| "String (JBool b) = (if b then ''true'' else ''false'')"
| "String (JNum n) = int_digits n"
| "String (JStr s) = s"
| "String (JBuffer bs) = bs"
| "String (JArr xs) =
     join_commas (map (\<lambda>x. if x = JUndefined \<or> x = JNull then [] else String x) xs)"
| "String (JObj props) = ''[object Object]''"
| "String (JError name msg props) =
     (let m = (case msg of Some s \<Rightarrow> s | None \<Rightarrow> [])
      in if name = [] then m else if m = [] then name else name @ '': '' @ m)"
| "String (JReadable chunks failure) = ''[object Object]''"

text \<open>
  \<open>new Error(message)\<close>; \<open>new Error()\<close> is \<open>new_Error JUndefined\<close>. A message that
  is not \<open>undefined\<close> is converted with \<open>String\<close> and stored as the own,
  non-enumerable \<open>message\<close>.
\<close>

definition new_Error :: "jsval \<Rightarrow> jsval" where
  "new_Error message =
     (if message = JUndefined then JError ''Error'' None []
      else JError ''Error'' (Some (String message)) [])"

section \<open>Result (src/utils/Result.ts)\<close>

text \<open>
  A \<open>Result\<close> is an object \<open>{value}\<close> or \<open>{cause}\<close>; the code tells them apart with
  \<open>'value' in result\<close>.
\<close>

definition ok :: "jsval \<Rightarrow> jsval" where
  "ok v = JObj [(''value'', v)]"

definition err :: "jsval \<Rightarrow> jsval" where
  "err cause =
     (if cause = JNull \<or> cause = JUndefined then JObj [(''cause'', new_Error JUndefined)]
      else if typeof cause = ''string'' then JObj [(''cause'', new_Error cause)]
      else if typeof cause \<noteq> ''object'' then
        (let message = JStr (String cause) in JObj [(''cause'', new_Error message)])
      else if instanceof_Error cause then JObj [(''cause'', cause)]
      else if in_op ''message'' cause then
        (let message = (if typeof (get_prop cause ''message'') = ''string''
                        then get_prop cause ''message''
                        else JStr (String (get_prop cause ''message'')))
         in JObj [(''cause'', spread2 cause (new_Error message))])
      else JObj [(''cause'', spread2 cause (new_Error JUndefined))])"

definition isOk :: "jsval \<Rightarrow> bool" where
  "isOk result = in_op ''value'' result"

definition isErr :: "jsval \<Rightarrow> bool" where
  "isErr result = (\<not> in_op ''value'' result)"

definition isPresent :: "jsval \<Rightarrow> bool" where
  "isPresent result =
     (in_op ''value'' result \<and> get_prop result ''value'' \<noteq> JUndefined \<and> get_prop result ''value'' \<noteq> JNull)"

section \<open>Promises and generators\<close>

text \<open>
  An iterator result is \<open>{done: false, value}\<close> or \<open>{done: true, value}\<close>. The promise
  that \<open>next()\<close> returns settles fulfilled with an iterator result or rejected with a
  cause. A generator is driven through its \<open>next\<close> method, modelled as a function from
  the generator's state to the settled promise and the new state; \<open>None\<close> says that the
  promise never settles (the generator's body loops forever).
\<close>

datatype IteratorResult = IterValue jsval | IterDone jsval

datatype Settled = Fulfilled IteratorResult | Rejected jsval

type_synonym 's next_method = "'s \<Rightarrow> (Settled \<times> 's) option"

text \<open>
  The object an \<open>async function*\<close> returns (ECMA-262, AsyncGenerator objects): \<open>next()\<close>
  resumes the body up to its next \<open>yield\<close>, its \<open>return\<close> or an uncaught exception; the
  latter two complete the generator, and \<open>next()\<close> on a completed generator fulfils with
  \<open>{done: true, value: undefined}\<close> without running the body.
\<close>

datatype 's BodyStep = Yields jsval 's | Returns jsval 's | Throws jsval 's

datatype 's GenState = Suspended 's | Completed 's

definition generator_next :: "('s \<Rightarrow> 's BodyStep option) \<Rightarrow> 's GenState next_method" where
  "generator_next body g =
     (case g of
        Completed s \<Rightarrow> Some (Fulfilled (IterDone JUndefined), Completed s)
      | Suspended s \<Rightarrow>
          (case body s of
             None \<Rightarrow> None
           | Some (Yields v s') \<Rightarrow> Some (Fulfilled (IterValue v), Suspended s')
           | Some (Returns v s') \<Rightarrow> Some (Fulfilled (IterDone v), Completed s')
           | Some (Throws cause s') \<Rightarrow> Some (Rejected cause, Completed s')))"

text \<open>\<open>n\<close> successive calls of \<open>next()\<close>: what each one settled to, and the last state.\<close>

fun pulls :: "'s next_method \<Rightarrow> nat \<Rightarrow> 's \<Rightarrow> (Settled list \<times> 's) option" where
  "pulls nxt 0 s = Some ([], s)"
| "pulls nxt (Suc n) s =
     (case nxt s of
        None \<Rightarrow> None
      | Some (r, s') \<Rightarrow>
          (case pulls nxt n s' of None \<Rightarrow> None | Some (rs, s'') \<Rightarrow> Some (r # rs, s'')))"

section \<open>AsyncResultGenerator (src/utils/AsyncResultIterators.ts)\<close>

fun wrapIteratorResult :: "IteratorResult \<Rightarrow> IteratorResult" where
  "wrapIteratorResult (IterDone v) = IterDone (ok v)"
| "wrapIteratorResult result = result"

text \<open>The \<open>next\<close> method of the object \<open>AsyncResultGenerator.from(generator)\<close> returns.\<close>

definition AsyncResultGenerator_from :: "'s next_method \<Rightarrow> 's next_method" where
  "AsyncResultGenerator_from generator s =
     (case generator s of
        None \<Rightarrow> None
      | Some (Fulfilled iteratorResult, s') \<Rightarrow> Some (Fulfilled (wrapIteratorResult iteratorResult), s')
      | Some (Rejected cause, s') \<Rightarrow> Some (Fulfilled (IterDone (err cause)), s'))"

section \<open>AsyncResult (src/utils/AsyncResult.ts)\<close>

text \<open>
  \<open>AsyncResult.run(action)\<close>: the argument is what \<open>await action()\<close> came to, \<open>Inl\<close> a
  thrown or rejected cause, \<open>Inr\<close> the value.
\<close>

definition AsyncResult_run :: "jsval + jsval \<Rightarrow> jsval" where
  "AsyncResult_run action = (case action of Inr v \<Rightarrow> ok v | Inl cause \<Rightarrow> err cause)"

section \<open>The stores and the module constants\<close>

text \<open>
  The DynamoDB and S3 clients are external: \<open>DYNAMO.send(command)\<close> and \<open>S3.send(command)\<close>
  are functions of the command, \<open>Inl\<close> a rejection with its cause. The commands are
  records of the fields the program sets, the responses of the fields it reads.
\<close>

datatype CommandKind = QueryCommand | ScanCommand | GetItemCommand

record Command =
  kind :: CommandKind
  TableName :: string
  KeyConditionExpression :: "string option"
  FilterExpression :: "string option"
  ExpressionAttributeValues :: "(string \<times> jsval) list option"
  Limit :: "int option"
  ExclusiveStartKey :: "jsval option"
  Key :: "(string \<times> jsval) list option"

record CommandOutput =
  Items :: "jsval list option"
  LastEvaluatedKey :: "jsval option"
  Item :: "jsval option"

record GetObjectCommand =
  Bucket :: string
  ObjectKey :: jsval

text \<open>
  The module's surroundings: the environment variables it reads at load time, the two
  clients, and the constants it imports from files that are not part of the sources at
  hand (\<open>HEX_REGEX\<close> from \<open>utils/constants\<close>, \<open>HTTPStatusCode.OK\<close>).
  \<open>HEX_REGEX_match s\<close> is \<open>None\<close> when \<open>s.match(HEX_REGEX)\<close> is \<open>null\<close>, and the
  first capture group \<open>match[1]\<close> otherwise. \<open>JSON.stringify\<close> and
  \<open>encodeURIComponent\<close> are built-ins whose output format is left open.
\<close>

record Env =
  PGP_TABLE_NAME :: string
  PGP_BUCKET_NAME :: string
  PGP_TABLE_PAGE_LIMIT :: "int option"
  DYNAMO_send :: "Command \<Rightarrow> jsval + CommandOutput"
  S3_send :: "GetObjectCommand \<Rightarrow> jsval + jsval"
  HEX_REGEX_match :: "string \<Rightarrow> string option"
  HTTPStatusCode_OK :: jsval
  JSON_stringify :: "jsval \<Rightarrow> string"
  encodeURIComponent :: "string \<Rightarrow> jsval + string"

text \<open>
  Modelled from the spec: \<open>HEX_REGEX\<close> (the file \<open>utils/constants\<close> is missing).
  The spec calls it a hex-identifier pattern, optionally prefixed by a 2-character marker
  such as \<open>0x\<close>, whose match is the hex payload with the marker stripped.
\<close>

definition is_hex_digit :: "char \<Rightarrow> bool" where
  "is_hex_digit c =
     (let n = (of_char c :: nat)
      in (48 \<le> n \<and> n \<le> 57) \<or> (65 \<le> n \<and> n \<le> 70) \<or> (97 \<le> n \<and> n \<le> 102))"

definition HEX_REGEX :: "string \<Rightarrow> string option" where
  "HEX_REGEX s =
     (let payload = (if take 2 s = ''0x'' then drop 2 s else s)
      in if payload \<noteq> [] \<and> list_all is_hex_digit payload then Some payload else None)"

section \<open>The backend (src/backend/backend.ts)\<close>

record SearchingLookup =
  op :: string
  search :: string
  options :: "string list option"
  exact :: bool

text \<open>\<open>s.toUpperCase()\<close>, \<open>s.slice(-16)\<close> and \<open>s.slice(0, -16)\<close> on ASCII strings.\<close>

definition toUpperCase :: "string \<Rightarrow> string" where
  "toUpperCase s =
     map (\<lambda>c. case map_of (zip ''abcdefghijklmnopqrstuvwxyz'' ''ABCDEFGHIJKLMNOPQRSTUVWXYZ'') c of
                Some u \<Rightarrow> u
              | None \<Rightarrow> c) s"

definition slice_last16 :: "string \<Rightarrow> string" where
  "slice_last16 s = drop (length s - 16) s"

definition slice_but_last16 :: "string \<Rightarrow> string" where
  "slice_but_last16 s = take (length s - 16) s"

text \<open>
  \<open>assert.ok(false)\<close> throws an \<open>AssertionError\<close>; its generated message quotes the
  source text of the failed expression and is abbreviated here.
\<close>

definition AssertionError :: jsval where
  "AssertionError =
     JError ''AssertionError'' (Some ''The expression evaluated to a falsy value'')
       [(''generatedMessage'', JBool True), (''code'', JStr ''ERR_ASSERTION''),
        (''actual'', JBool False), (''expected'', JBool True), (''operator'', JStr ''=='')]"

definition TypeError :: "string \<Rightarrow> jsval" where
  "TypeError message = JError ''TypeError'' (Some message) []"

text \<open>
  \<open>unfoldAttributes\<close>: \<open>unfoldAttribute\<close> is the body of the \<open>for (const k in item)\<close>
  loop, the chain of tests on one attribute; the loop runs over the properties of
  \<open>item\<close> in enumeration order with the \<open>result\<close> built so far. Reading a field of an
  attribute that is \<open>null\<close> or \<open>undefined\<close> throws.
\<close>

definition unfoldAttribute :: "string \<Rightarrow> jsval \<Rightarrow> (string \<times> jsval) list \<Rightarrow> (string \<times> jsval) list" where
  "unfoldAttribute k attr result =
     (if get_prop attr ''B'' \<noteq> JUndefined then set_prop k (get_prop attr ''B'') result
      else if get_prop attr ''BOOL'' \<noteq> JUndefined then set_prop k (get_prop attr ''BOOL'') result
      else if get_prop attr ''BS'' \<noteq> JUndefined then set_prop k (get_prop attr ''BS'') result
      else if get_prop attr ''L'' \<noteq> JUndefined then set_prop k (get_prop attr ''L'') result
      else if get_prop attr ''M'' \<noteq> JUndefined then set_prop k (get_prop attr ''M'') result
      else if get_prop attr ''N'' \<noteq> JUndefined then set_prop k (get_prop attr ''N'') result
      else if get_prop attr ''NS'' \<noteq> JUndefined then set_prop k (get_prop attr ''NS'') result
      else if get_prop attr ''NULL'' \<noteq> JUndefined then set_prop k JNull result
      else if get_prop attr ''S'' \<noteq> JUndefined then set_prop k (get_prop attr ''S'') result
      else if get_prop attr ''SS'' \<noteq> JUndefined then set_prop k (get_prop attr ''SS'') result
      else if get_prop attr ''$unknown'' \<noteq> JUndefined then set_prop k (get_prop attr ''$unknown'') result
      else result)"

fun unfoldAttributes_loop :: "(string \<times> jsval) list \<Rightarrow> (string \<times> jsval) list \<Rightarrow> jsval + (string \<times> jsval) list" where
  "unfoldAttributes_loop [] result = Inr result"
| "unfoldAttributes_loop ((k, attr) # rest) result =
     (if attr = JNull \<or> attr = JUndefined then Inl (TypeError ''Cannot read properties'')
      else unfoldAttributes_loop rest (unfoldAttribute k attr result))"

definition unfoldAttributes :: "jsval \<Rightarrow> jsval + (string \<times> jsval) list" where
  "unfoldAttributes item = unfoldAttributes_loop (own_enumerable item) []"

text \<open>
  \<open>extractKeyMetadata\<close>: \<open>Inl\<close> is the exception it throws. After the three assertions
  both operands of \<open>+\<close> are strings, so \<open>+\<close> concatenates.
\<close>

definition extractKeyMetadata :: "jsval \<Rightarrow> jsval + jsval" where
  "extractKeyMetadata item =
     (case unfoldAttributes item of
        Inl cause \<Rightarrow> Inl cause
      | Inr result \<Rightarrow>
          if typeof (get_prop (JObj result) ''pgpKeyId'') \<noteq> ''string'' then Inl AssertionError
          else if typeof (get_prop (JObj result) ''pgpFingerprintUpper'') \<noteq> ''string'' then Inl AssertionError
          else if typeof (get_prop (JObj result) ''primaryUserId'') \<noteq> ''string'' then Inl AssertionError
          else
            (let result1 = set_prop ''id'' (get_prop (JObj result) ''pgpKeyId'') result;
                 result2 = set_prop ''fingerprint''
                             (JStr (String (get_prop (JObj result1) ''pgpFingerprintUpper'')
                                    @ String (get_prop (JObj result1) ''pgpKeyId''))) result1;
                 result3 = delete_prop ''pgpKeyId'' result2;
                 result4 = delete_prop ''pgpFingerprintUpper'' result3
             in Inr (JObj result4)))"

text \<open>
  \<open>searchKeysById\<close> and \<open>searchKeysByKeyword\<close> build a request and wrap the same
  generator body around it: send the request, yield the decoded items of the response,
  stop when the response has no \<open>LastEvaluatedKey\<close>, otherwise store it in
  \<open>request.input.ExclusiveStartKey\<close> and send again. The body's state is the request
  object (it is mutated), the position in the loop, and the requests sent so far, each
  as it was when sent.
\<close>

datatype PagerPosition =
    BeforeFirstSend
  | InItems "jsval list" "jsval option"

record Pager =
  request :: Command
  position :: PagerPosition
  sent :: "Command list"

definition response_Items :: "CommandOutput \<Rightarrow> jsval list" where
  "response_Items response = (case Items response of None \<Rightarrow> [] | Some items \<Rightarrow> items)"

partial_function (option) pager_body :: "(Command \<Rightarrow> jsval + CommandOutput) \<Rightarrow> Pager \<Rightarrow> Pager BodyStep option" where
  "pager_body send p =
     (case position p of
        BeforeFirstSend \<Rightarrow>
          (case send (request p) of
             Inl cause \<Rightarrow> Some (Throws cause (p\<lparr>sent := sent p @ [request p]\<rparr>))
           | Inr response \<Rightarrow>
               pager_body send
                 (p\<lparr>position := InItems (response_Items response) (LastEvaluatedKey response),
                    sent := sent p @ [request p]\<rparr>))
      | InItems items lastEvaluatedKey \<Rightarrow>
          (case items of
             i # rest \<Rightarrow>
               (case extractKeyMetadata i of
                  Inl cause \<Rightarrow> Some (Throws cause (p\<lparr>position := InItems rest lastEvaluatedKey\<rparr>))
                | Inr keyMeta \<Rightarrow> Some (Yields keyMeta (p\<lparr>position := InItems rest lastEvaluatedKey\<rparr>)))
           | [] \<Rightarrow>
               (case lastEvaluatedKey of
                  None \<Rightarrow> Some (Returns JUndefined p)
                | Some k \<Rightarrow>
                    (case send ((request p)\<lparr>ExclusiveStartKey := Some k\<rparr>) of
                       Inl cause \<Rightarrow>
                         Some (Throws cause
                                 (p\<lparr>request := (request p)\<lparr>ExclusiveStartKey := Some k\<rparr>,
                                    sent := sent p @ [(request p)\<lparr>ExclusiveStartKey := Some k\<rparr>]\<rparr>))
                     | Inr response \<Rightarrow>
                         pager_body send
                           (p\<lparr>request := (request p)\<lparr>ExclusiveStartKey := Some k\<rparr>,
                              position := InItems (response_Items response) (LastEvaluatedKey response),
                              sent := sent p @ [(request p)\<lparr>ExclusiveStartKey := Some k\<rparr>]\<rparr>)))))"

text \<open>The \<open>next\<close> method of the generators the two functions return.\<close>

definition searchKeys_next :: "Env \<Rightarrow> Pager GenState next_method" where
  "searchKeys_next env = AsyncResultGenerator_from (generator_next (pager_body (DYNAMO_send env)))"

definition searchKeysById_request :: "Env \<Rightarrow> SearchingLookup \<Rightarrow> Command" where
  "searchKeysById_request env lookup =
     \<lparr>kind = QueryCommand,
      TableName = PGP_TABLE_NAME env,
      KeyConditionExpression = Some ''pgpKeyId = :term'',
      FilterExpression = None,
      ExpressionAttributeValues = Some [('':term'', JObj [(''S'', JStr (toUpperCase (search lookup)))])],
      Limit = PGP_TABLE_PAGE_LIMIT env,
      ExclusiveStartKey = None,
      Key = None\<rparr>"

definition searchKeysById :: "Env \<Rightarrow> SearchingLookup \<Rightarrow> Pager GenState" where
  "searchKeysById env lookup =
     Suspended \<lparr>request = searchKeysById_request env lookup, position = BeforeFirstSend, sent = []\<rparr>"

definition searchKeysByKeyword_request :: "Env \<Rightarrow> SearchingLookup \<Rightarrow> Command" where
  "searchKeysByKeyword_request env lookup =
     \<lparr>kind = ScanCommand,
      TableName = PGP_TABLE_NAME env,
      KeyConditionExpression = None,
      FilterExpression =
        Some (if exact lookup then ''primaryUserId = :term''
              else ''contains(primaryUserId, :term) OR contains(pgpKeyId, :term) OR contains(pgpFingerprintUpper, :term)''),
      ExpressionAttributeValues = Some [('':term'', JObj [(''S'', JStr (search lookup))])],
      Limit = PGP_TABLE_PAGE_LIMIT env,
      ExclusiveStartKey = None,
      Key = None\<rparr>"

definition searchKeysByKeyword :: "Env \<Rightarrow> SearchingLookup \<Rightarrow> Pager GenState" where
  "searchKeysByKeyword env lookup =
     Suspended \<lparr>request = searchKeysByKeyword_request env lookup, position = BeforeFirstSend, sent = []\<rparr>"

text \<open>\<open>findKeyByFingerprint\<close>: the request it builds, and the \<open>Result\<close> its promise fulfils with.\<close>

definition findKeyByFingerprint_request :: "Env \<Rightarrow> SearchingLookup \<Rightarrow> Command" where
  "findKeyByFingerprint_request env lookup =
     \<lparr>kind = GetItemCommand,
      TableName = PGP_TABLE_NAME env,
      KeyConditionExpression = None,
      FilterExpression = None,
      ExpressionAttributeValues = None,
      Limit = None,
      ExclusiveStartKey = None,
      Key = Some [(''pgpKeyId'', JObj [(''S'', JStr (toUpperCase (slice_last16 (search lookup))))]),
                  (''pgpFingerprintUpper'', JObj [(''S'', JStr (toUpperCase (slice_but_last16 (search lookup))))])]\<rparr>"

definition findKeyByFingerprint :: "Env \<Rightarrow> SearchingLookup \<Rightarrow> jsval" where
  "findKeyByFingerprint env lookup =
     AsyncResult_run
       (case DYNAMO_send env (findKeyByFingerprint_request env lookup) of
          Inl cause \<Rightarrow> Inl cause
        | Inr response \<Rightarrow>
            (case Item response of
               None \<Rightarrow> Inr JUndefined
             | Some item \<Rightarrow> extractKeyMetadata item))"

text \<open>\<open>getKeyDataStream\<close>; \<open>S3_send\<close> answers with the \<open>Body\<close> of the response.\<close>

definition getKeyDataStream :: "Env \<Rightarrow> jsval \<Rightarrow> jsval" where
  "getKeyDataStream env keyMeta =
     AsyncResult_run
       (case S3_send env \<lparr>Bucket = PGP_BUCKET_NAME env, ObjectKey = get_prop keyMeta ''fingerprint''\<rparr> of
          Inl cause \<Rightarrow> Inl cause
        | Inr body \<Rightarrow> Inr body)"

text \<open>
  \<open>searchKeysByBestGuess\<close> is a plain \<open>async function*\<close>. Its state: the lookup (whose
  \<open>search\<close> it overwrites), where the body stands, and the point lookups it has issued.
  \<open>return yield* g\<close> hands every item of \<open>g\<close> on and returns what \<open>g\<close> returns.
\<close>

datatype BestGuessStage =
    AtStart
  | AfterYield
  | Delegating "Pager GenState"

record BestGuess =
  lookup :: SearchingLookup
  stage :: BestGuessStage
  issued :: "Command list"

definition yield_star :: "Env \<Rightarrow> BestGuess \<Rightarrow> Pager GenState \<Rightarrow> BestGuess BodyStep option" where
  "yield_star env st g =
     (case searchKeys_next env g of
        None \<Rightarrow> None
      | Some (Rejected cause, g') \<Rightarrow> Some (Throws cause (st\<lparr>stage := Delegating g'\<rparr>))
      | Some (Fulfilled (IterValue v), g') \<Rightarrow> Some (Yields v (st\<lparr>stage := Delegating g'\<rparr>))
      | Some (Fulfilled (IterDone r), g') \<Rightarrow> Some (Returns r (st\<lparr>stage := Delegating g'\<rparr>)))"

definition searchKeysByBestGuess_body :: "Env \<Rightarrow> BestGuess \<Rightarrow> BestGuess BodyStep option" where
  "searchKeysByBestGuess_body env st =
     (case stage st of
        AtStart \<Rightarrow>
          (case HEX_REGEX_match env (search (lookup st)) of
             None \<Rightarrow> yield_star env st (searchKeysByKeyword env (lookup st))
           | Some match1 \<Rightarrow>
               (let st1 = st\<lparr>lookup := (lookup st)\<lparr>search := match1\<rparr>\<rparr>
                in if length (search (lookup st1)) = 32 \<or> length (search (lookup st1)) = 40
                      \<or> length (search (lookup st1)) = 64 then
                     (let result = findKeyByFingerprint env (lookup st1);
                          st2 = st1\<lparr>issued := issued st1 @ [findKeyByFingerprint_request env (lookup st1)]\<rparr>
                      in if isErr result then Some (Returns result st2)
                         else if isPresent result
                         then Some (Yields (get_prop result ''value'') (st2\<lparr>stage := AfterYield\<rparr>))
                         else Some (Returns (ok JUndefined) st2))
                   else if length (search (lookup st1)) = 16
                   then yield_star env st1 (searchKeysById env (lookup st1))
                   else yield_star env st1 (searchKeysByKeyword env (lookup st1))))
      | AfterYield \<Rightarrow> Some (Returns (ok JUndefined) st)
      | Delegating g \<Rightarrow> yield_star env st g)"

definition searchKeysByBestGuess_next :: "Env \<Rightarrow> BestGuess GenState next_method" where
  "searchKeysByBestGuess_next env = generator_next (searchKeysByBestGuess_body env)"

definition searchKeysByBestGuess :: "SearchingLookup \<Rightarrow> BestGuess GenState" where
  "searchKeysByBestGuess l = Suspended \<lparr>lookup = l, stage = AtStart, issued = []\<rparr>"

text \<open>Every DynamoDB command the sequence has sent, in order.\<close>

definition commands_sent :: "BestGuess GenState \<Rightarrow> Command list" where
  "commands_sent g =
     (let st = (case g of Suspended st \<Rightarrow> st | Completed st \<Rightarrow> st)
      in issued st @
         (case stage st of
            Delegating (Suspended p) \<Rightarrow> sent p
          | Delegating (Completed p) \<Rightarrow> sent p
          | _ \<Rightarrow> []))"

section \<open>The lookup handlers (src/pks/lookup/lookup.ts)\<close>

text \<open>
  \<open>generateKeyStreams\<close>: the body between two yields is the loop that pulls the next
  key, asks for its stream, and goes round again when the stream is not present.
\<close>

partial_function (option) generateKeyStreams_body :: "Env \<Rightarrow> 's next_method \<Rightarrow> 's \<Rightarrow> 's BodyStep option" where
  "generateKeyStreams_body env keyMetas s =
     (case keyMetas s of
        None \<Rightarrow> None
      | Some (Rejected cause, s') \<Rightarrow> Some (Throws cause s')
      | Some (Fulfilled (IterDone v), s') \<Rightarrow> Some (Returns v s')
      | Some (Fulfilled (IterValue keyMeta), s') \<Rightarrow>
          (if isPresent (getKeyDataStream env keyMeta)
           then Some (Yields (get_prop (getKeyDataStream env keyMeta) ''value'') s')
           else generateKeyStreams_body env keyMetas s'))"

definition generateKeyStreams_next :: "Env \<Rightarrow> 's next_method \<Rightarrow> 's GenState next_method" where
  "generateKeyStreams_next env keyMetas = generator_next (generateKeyStreams_body env keyMetas)"

section \<open>The formatters (src/pks/lookup/formatters.ts)\<close>

text \<open>
  Reading a stream: \<open>for await (const nextChunk of keyStream)\<close> pushes every chunk
  (a \<open>Buffer\<close> as it is, anything else through \<open>Buffer.from\<close>) and throws the
  stream's failure, if it has one, after the chunks delivered before it. Chunks of a
  byte stream are Buffers or strings; \<open>Buffer.from\<close> is taken to reject anything else.
  \<open>Inl\<close> is the exception that leaves the \<open>try\<close> block.
\<close>

definition Buffer_from :: "jsval \<Rightarrow> jsval + string" where
  "Buffer_from v =
     (case v of
        JStr s \<Rightarrow> Inr s
      | JBuffer b \<Rightarrow> Inr b
      | _ \<Rightarrow> Inl (TypeError ''The first argument must be of type string or an instance of Buffer''))"

fun push_chunks :: "jsval list \<Rightarrow> string list \<Rightarrow> jsval + string list" where
  "push_chunks [] chunks = Inr chunks"
| "push_chunks (nextChunk # later) chunks =
     (case nextChunk of
        JBuffer b \<Rightarrow> push_chunks later (chunks @ [b])
      | _ \<Rightarrow>
          (case Buffer_from nextChunk of
             Inl cause \<Rightarrow> Inl cause
           | Inr b \<Rightarrow> push_chunks later (chunks @ [b])))"

definition read_stream :: "jsval \<Rightarrow> string list \<Rightarrow> jsval + string list" where
  "read_stream keyStream chunks =
     (case keyStream of
        JReadable delivered failure \<Rightarrow>
          (case push_chunks delivered chunks of
             Inl cause \<Rightarrow> Inl cause
           | Inr chunks' \<Rightarrow> (case failure of None \<Rightarrow> Inr chunks' | Some cause \<Rightarrow> Inl cause))
      | JArr xs \<Rightarrow> push_chunks xs chunks
      | JStr str \<Rightarrow> push_chunks (map (\<lambda>c. JStr [c]) str) chunks
      | JBuffer b \<Rightarrow> push_chunks (map (\<lambda>c. JNum (of_char c)) b) chunks
      | _ \<Rightarrow> Inl (TypeError ''keyStream is not async iterable''))"

text \<open>
  The formatters return an \<open>AsyncResult\<close>: the model gives what the promise settles to,
  \<open>Inr\<close> the \<open>Result\<close> it fulfils with and \<open>Inl\<close> the cause it rejects with (when
  \<open>next()\<close> of the sequence rejects), together with the state the sequence is left in.
  \<open>Buffer.concat(chunks).toString()\<close> is the concatenation of the bytes.
\<close>

definition formatKeys_structuredResult :: "Env \<Rightarrow> (string \<times> jsval) list" where
  "formatKeys_structuredResult env =
     [(''statusCode'', HTTPStatusCode_OK env),
      (''headers'', JObj [(''Content-Type'', JStr ''application/pgp-keys'')])]"

partial_function (option) formatKeys_loop ::
  "Env \<Rightarrow> 's next_method \<Rightarrow> string list \<Rightarrow> IteratorResult \<Rightarrow> 's \<Rightarrow> ((jsval + jsval) \<times> 's) option" where
  "formatKeys_loop env keyStreams chunks nextStream s =
     (case nextStream of
        IterValue keyStream \<Rightarrow>
          (case read_stream keyStream chunks of
             Inl cause \<Rightarrow> Some (Inr (err cause), s)
           | Inr chunks' \<Rightarrow>
               (case keyStreams s of
                  None \<Rightarrow> None
                | Some (Rejected cause, s') \<Rightarrow> Some (Inl cause, s')
                | Some (Fulfilled nextStream', s') \<Rightarrow> formatKeys_loop env keyStreams chunks' nextStream' s'))
      | IterDone v \<Rightarrow>
          (if isOk v
           then Some (Inr (ok (JObj (set_prop ''body'' (JStr (concat chunks)) (formatKeys_structuredResult env)))), s)
           else Some (Inr v, s)))"

definition formatKeys :: "Env \<Rightarrow> 's next_method \<Rightarrow> 's \<Rightarrow> ((jsval + jsval) \<times> 's) option" where
  "formatKeys env keyStreams s =
     (case keyStreams s of
        None \<Rightarrow> None
      | Some (Rejected cause, s') \<Rightarrow> Some (Inl cause, s')
      | Some (Fulfilled nextStream, s') \<Rightarrow> formatKeys_loop env keyStreams [] nextStream s')"

partial_function (option) formatMachineIndices_loop ::
  "Env \<Rightarrow> 's next_method \<Rightarrow> string list \<Rightarrow> IteratorResult \<Rightarrow> 's \<Rightarrow> ((jsval + jsval) \<times> 's) option" where
  "formatMachineIndices_loop env keyMetas chunks nxt s =
     (case nxt of
        IterValue keyMeta \<Rightarrow>
          (case encodeURIComponent env (String (get_prop keyMeta ''primaryUserId'')) of
             Inl cause \<Rightarrow> Some (Inl cause, s)
           | Inr uid \<Rightarrow>
               (case keyMetas s of
                  None \<Rightarrow> None
                | Some (Rejected cause, s') \<Rightarrow> Some (Inl cause, s')
                | Some (Fulfilled nxt', s') \<Rightarrow>
                    formatMachineIndices_loop env keyMetas
                      (chunks @ [''pub:'' @ String (get_prop keyMeta ''fingerprint'') @ [CHR 0x0A]
                                 @ ''uid:'' @ uid @ [CHR 0x0A]])
                      nxt' s'))
      | IterDone v \<Rightarrow>
          (if isErr v then Some (Inr v, s) else Some (Inr (ok (JStr (concat chunks))), s)))"

definition formatMachineIndices :: "Env \<Rightarrow> 's next_method \<Rightarrow> 's \<Rightarrow> ((jsval + jsval) \<times> 's) option" where
  "formatMachineIndices env keyMetas s =
     (case keyMetas s of
        None \<Rightarrow> None
      | Some (Rejected cause, s') \<Rightarrow> Some (Inl cause, s')
      | Some (Fulfilled nxt, s') \<Rightarrow> formatMachineIndices_loop env keyMetas [] nxt s')"

partial_function (option) formatJsonIndices_loop ::
  "Env \<Rightarrow> 's next_method \<Rightarrow> (string \<times> jsval) list \<Rightarrow> IteratorResult \<Rightarrow> 's \<Rightarrow> ((jsval + jsval) \<times> 's) option" where
  "formatJsonIndices_loop env keyMetas indices nxt s =
     (case nxt of
        IterValue keyMeta \<Rightarrow>
          (case keyMetas s of
             None \<Rightarrow> None
           | Some (Rejected cause, s') \<Rightarrow> Some (Inl cause, s')
           | Some (Fulfilled nxt', s') \<Rightarrow>
               formatJsonIndices_loop env keyMetas
                 (set_prop (String (get_prop keyMeta ''fingerprint'')) keyMeta indices) nxt' s')
      | IterDone v \<Rightarrow>
          (if isErr v then Some (Inr v, s)
           else Some (Inr (ok (JStr (JSON_stringify env (JObj indices)))), s)))"

definition formatJsonIndices :: "Env \<Rightarrow> 's next_method \<Rightarrow> 's \<Rightarrow> ((jsval + jsval) \<times> 's) option" where
  "formatJsonIndices env keyMetas s =
     (case keyMetas s of
        None \<Rightarrow> None
      | Some (Rejected cause, s') \<Rightarrow> Some (Inl cause, s')
      | Some (Fulfilled nxt, s') \<Rightarrow> formatJsonIndices_loop env keyMetas [] nxt s')"

definition isMachine :: "SearchingLookup \<Rightarrow> bool" where
  "isMachine l =
     (case options l of
        None \<Rightarrow> True
      | Some opts \<Rightarrow> ''mr'' \<in> set opts \<or> \<not> ''json'' \<in> set opts)"

definition formatIndices :: "Env \<Rightarrow> SearchingLookup \<Rightarrow> 's next_method \<Rightarrow> 's \<Rightarrow> ((jsval + jsval) \<times> 's) option" where
  "formatIndices env l keyMetas s =
     (let structuredResult =
            [(''statusCode'', HTTPStatusCode_OK env),
             (''headers'', JObj [(''Content-Type'', JStr (if isMachine l then ''text/plain'' else ''application/json''))])]
      in case (if isMachine l then formatMachineIndices env keyMetas s else formatJsonIndices env keyMetas s) of
           None \<Rightarrow> None
         | Some (Inl cause, s') \<Rightarrow> Some (Inl cause, s')
         | Some (Inr formatResult, s') \<Rightarrow>
             (if isErr formatResult then Some (Inr formatResult, s')
              else Some (Inr (ok (JObj (set_prop ''body'' (get_prop formatResult ''value'') structuredResult))), s')))"

text \<open>
  The handlers of \<open>get\<close> and \<open>hget\<close>, for a lookup that has a search string.
  \<open>BadLookupError\<close> comes from a file that is not among the sources; it is an \<open>Error\<close>
  subclass constructed from a message.
\<close>

definition BadLookupError :: "string \<Rightarrow> jsval" where
  "BadLookupError message = JError ''BadLookupError'' (Some message) []"

definition get_handler :: "Env \<Rightarrow> SearchingLookup \<Rightarrow> (jsval + jsval) option" where
  "get_handler env l =
     map_option fst
       (formatKeys env (generateKeyStreams_next env (searchKeysByBestGuess_next env))
          (Suspended (searchKeysByBestGuess l)))"

text \<open>The generator \<open>hget\<close> writes inline; its state says whether the body has run.\<close>

definition hget_keyMetas_body :: "jsval \<Rightarrow> bool \<Rightarrow> bool BodyStep option" where
  "hget_keyMetas_body keyMetaResult resumed =
     (if \<not> resumed \<and> get_prop keyMetaResult ''value'' \<noteq> JUndefined
      then Some (Yields (get_prop keyMetaResult ''value'') True)
      else Some (Returns (ok JUndefined) True))"

definition hget_handler :: "Env \<Rightarrow> SearchingLookup \<Rightarrow> (jsval + jsval) option" where
  "hget_handler env l =
     (case HEX_REGEX_match env (search l) of
        None \<Rightarrow> Some (Inr (err (BadLookupError (''invalid hex string format '' @ search l))))
      | Some match1 \<Rightarrow>
          (let l1 = l\<lparr>search := match1\<rparr>
           in if length (search l1) \<noteq> 32 \<and> length (search l1) \<noteq> 40 \<and> length (search l1) \<noteq> 64
              then Some (Inr (err (BadLookupError (''invalid hex string length '' @ search l1))))
              else
                (let keyMetaResult = findKeyByFingerprint env l1
                 in if isErr keyMetaResult then Some (Inr keyMetaResult)
                    else map_option fst
                           (formatKeys env
                              (generateKeyStreams_next env (generator_next (hget_keyMetas_body keyMetaResult)))
                              (Suspended (Suspended False))))))"

section \<open>Pages, as the specification speaks of them\<close>






section \<open>Concrete inputs\<close>

text \<open>A scan request and a table that cannot be reached, for checking the theorems on.\<close>

definition demo_scan :: Command where
  "demo_scan =
     \<lparr>kind = ScanCommand, TableName = ''keys'', KeyConditionExpression = None,
      FilterExpression = Some ''primaryUserId = :term'',
      ExpressionAttributeValues = Some [('':term'', JObj [(''S'', JStr ''alice'')])],
      Limit = None, ExclusiveStartKey = None, Key = None\<rparr>"


text \<open>
  A table of two pages: the first has one record and the token \<open>token1\<close>, the second
  one record and no token. \<open>demo_table_failing\<close> serves the first page and is down
  afterwards.
\<close>

definition demo_item :: "string \<Rightarrow> string \<Rightarrow> string \<Rightarrow> jsval" where
  "demo_item keyId upper uid =
     JObj [(''pgpKeyId'', JObj [(''S'', JStr keyId)]),
           (''pgpFingerprintUpper'', JObj [(''S'', JStr upper)]),
           (''primaryUserId'', JObj [(''S'', JStr uid)])]"

definition demo_table :: "Command \<Rightarrow> jsval + CommandOutput" where
  "demo_table command =
     (if ExclusiveStartKey command = None
      then Inr \<lparr>Items = Some [demo_item ''0011223344556677'' ''AABBCCDD'' ''alice''],
                LastEvaluatedKey = Some (JStr ''token1''), Item = None\<rparr>
      else if ExclusiveStartKey command = Some (JStr ''token1'')
      then Inr \<lparr>Items = Some [demo_item ''0011223344556677'' ''EEFF0011'' ''bob''],
                LastEvaluatedKey = None, Item = None\<rparr>
      else Inl (JStr ''no such page''))"


definition demo_env :: Env where
  "demo_env =
     \<lparr>PGP_TABLE_NAME = ''keys'', PGP_BUCKET_NAME = ''keydata'', PGP_TABLE_PAGE_LIMIT = None,
      DYNAMO_send = demo_table, S3_send = (\<lambda>c. Inl (JStr ''NoSuchKey'')),
      HEX_REGEX_match = HEX_REGEX, HTTPStatusCode_OK = JNum 200,
      JSON_stringify = (\<lambda>v. ''{}''), encodeURIComponent = Inr\<rparr>"

definition demo_lookup :: "string \<Rightarrow> SearchingLookup" where
  "demo_lookup s = \<lparr>op = ''index'', search = s, options = None, exact = False\<rparr>"

text \<open>A record without \<open>primaryUserId\<close>, and a table that returns it.\<close>

definition demo_malformed_item :: jsval where
  "demo_malformed_item =
     JObj [(''pgpKeyId'', JObj [(''S'', JStr ''0011223344556677'')]),
           (''pgpFingerprintUpper'', JObj [(''S'', JStr ''AABBCCDD'')])]"

definition demo_table_malformed :: "Command \<Rightarrow> jsval + CommandOutput" where
  "demo_table_malformed command =
     Inr \<lparr>Items = Some [demo_malformed_item], LastEvaluatedKey = None, Item = Some demo_malformed_item\<rparr>"

section \<open>What a sequence has sent and yielded\<close>

text \<open>
  The commands the best-guess sequence of a lookup has sent to the table after \<open>n\<close>
  pulls (\<open>None\<close> when a pull does not return).
\<close>

definition commands_after_pulls :: "Env \<Rightarrow> SearchingLookup \<Rightarrow> nat \<Rightarrow> Command list option" where
  "commands_after_pulls env l n =
     map_option (\<lambda>(rs, g). commands_sent g)
       (pulls (searchKeysByBestGuess_next env) n (searchKeysByBestGuess l))"

text \<open>A pull that yielded an item.\<close>

fun is_item :: "Settled \<Rightarrow> bool" where
  "is_item (Fulfilled (IterValue v)) = True"
| "is_item r = False"

text \<open>
  Two commands are the same query when they differ at most in the continuation token.
  A paginated sequence sends only one query when its request object holds that query,
  everything it has sent is that query, and it has sent something once it is past the
  first send.
\<close>

definition same_query :: "Command \<Rightarrow> Command \<Rightarrow> bool" where
  "same_query a b = (a\<lparr>ExclusiveStartKey := None\<rparr> = b\<lparr>ExclusiveStartKey := None\<rparr>)"


fun generator_state :: "'s GenState \<Rightarrow> 's" where
  "generator_state (Suspended s) = s"
| "generator_state (Completed s) = s"

definition pager_sends_only :: "Command \<Rightarrow> Pager \<Rightarrow> bool" where
  "pager_sends_only req p =
     (same_query req (request p) \<and> list_all (same_query req) (sent p)
      \<and> (position p = BeforeFirstSend \<or> sent p \<noteq> []))"

definition sequence_sends_only :: "Command \<Rightarrow> Pager GenState \<Rightarrow> bool" where
  "sequence_sends_only req g =
     (pager_sends_only req (generator_state g)
      \<and> (case g of Completed p \<Rightarrow> sent p \<noteq> [] | Suspended p \<Rightarrow> True))"


section \<open>Sequences and responses, as the specification speaks of them\<close>

text \<open>The pulls that yield the items \<open>xs\<close>, one after the other.\<close>

definition yielded :: "jsval list \<Rightarrow> Settled list" where
  "yielded xs = map (\<lambda>x. Fulfilled (IterValue x)) xs"

text \<open>The response of \<open>formatKeys\<close> with a body.\<close>

definition formatKeys_response :: "Env \<Rightarrow> string \<Rightarrow> jsval" where
  "formatKeys_response env body =
     JObj [(''statusCode'', HTTPStatusCode_OK env),
           (''headers'', JObj [(''Content-Type'', JStr ''application/pgp-keys'')]),
           (''body'', JStr body)]"

text \<open>The streams of those keys whose retrieval gave one, in the order of the keys.\<close>

definition present_streams :: "Env \<Rightarrow> jsval list \<Rightarrow> jsval list" where
  "present_streams env keyMetas =
     map (\<lambda>keyMeta. get_prop (getKeyDataStream env keyMeta) ''value'')
       (filter (\<lambda>keyMeta. isPresent (getKeyDataStream env keyMeta)) keyMetas)"

text \<open>
  More concrete inputs: the body of a generator that yields the elements of an array and
  returns \<open>r\<close>; the two records of \<open>demo_table\<close>, decoded; a bucket that has the key
  data of the second only; a table whose point lookup finds the first.
\<close>

definition array_body :: "jsval list \<Rightarrow> jsval \<Rightarrow> nat \<Rightarrow> nat BodyStep option" where
  "array_body xs r n = (if n < length xs then Some (Yields (xs ! n) (Suc n)) else Some (Returns r n))"

definition demo_alice :: jsval where
  "demo_alice = JObj [(''primaryUserId'', JStr ''alice''), (''id'', JStr ''0011223344556677''),
                      (''fingerprint'', JStr ''AABBCCDD0011223344556677'')]"

definition demo_bob :: jsval where
  "demo_bob = JObj [(''primaryUserId'', JStr ''bob''), (''id'', JStr ''0011223344556677''),
                    (''fingerprint'', JStr ''EEFF00110011223344556677'')]"

definition demo_bucket :: "GetObjectCommand \<Rightarrow> jsval + jsval" where
  "demo_bucket command =
     (if ObjectKey command = JStr ''EEFF00110011223344556677''
      then Inr (JReadable [JBuffer ''-----BEGIN PGP'', JStr '' PUBLIC KEY-----''] None)
      else Inl (JStr ''NoSuchKey''))"

definition demo_key_table :: "Command \<Rightarrow> jsval + CommandOutput" where
  "demo_key_table command =
     Inr \<lparr>Items = None, LastEvaluatedKey = None,
          Item = Some (demo_item ''0011223344556677'' ''AABBCCDD'' ''alice'')\<rparr>"

text \<open>
  The mapping \<open>formatJsonIndices\<close> builds: every record is stored under its fingerprint,
  in arrival order, a later one replacing an earlier one under the same key.
\<close>

definition fingerprint_key :: "jsval \<Rightarrow> string" where
  "fingerprint_key keyMeta = String (get_prop keyMeta ''fingerprint'')"

definition index_by_fingerprint :: "jsval list \<Rightarrow> (string \<times> jsval) list" where
  "index_by_fingerprint keyMetas = fold (\<lambda>keyMeta. set_prop (fingerprint_key keyMeta) keyMeta) keyMetas []"

text \<open>A second record with the fingerprint of \<open>demo_alice\<close>.\<close>

definition demo_alice_renamed :: jsval where
  "demo_alice_renamed = JObj [(''primaryUserId'', JStr ''alice (work)''), (''id'', JStr ''0011223344556677''),
                              (''fingerprint'', JStr ''AABBCCDD0011223344556677'')]"

section \<open>Result: the discriminants\<close>

lemma err_shape: "\<exists>c. err cause = JObj [(''cause'', c)]"
  by (simp add: err_def Let_def)

lemma isErr_err: "isErr (err cause)"
  using err_shape [of cause] by (auto simp: isErr_def)

lemma isOk_ok: "isOk (ok v)"
  by (simp add: isOk_def ok_def)

lemma not_isErr_ok: "\<not> isErr (ok v)"
  by (simp add: isErr_def ok_def)

lemma value_ok: "get_prop (ok v) ''value'' = v"
  by (simp add: ok_def)

text \<open>
  C10. \<open>isPresent(ok(v))\<close> holds exactly when \<open>isOk\<close> holds and \<open>v\<close> is neither
  \<open>null\<close> nor \<open>undefined\<close>; \<open>isPresent(Ok(null))\<close> is false, \<open>isPresent(Ok(5))\<close> is
  true, \<open>isErr(Ok(undefined))\<close> is false; and of every result \<open>r\<close> exactly one of
  \<open>isOk\<close> and \<open>isErr\<close> holds, decided by the presence of the \<open>value\<close> field alone.
\<close>

theorem isPresent_isOk_isErr:
  "(isPresent (ok v) \<longleftrightarrow> (isOk (ok v) \<and> v \<noteq> JNull \<and> v \<noteq> JUndefined))
   \<and> \<not> isPresent (ok JNull)
   \<and> isPresent (ok (JNum 5))
   \<and> \<not> isErr (ok JUndefined)
   \<and> (isOk r \<longleftrightarrow> \<not> isErr r)
   \<and> (isOk r \<longleftrightarrow> in_op ''value'' r)
   \<and> (isPresent r \<longleftrightarrow> (isOk r \<and> get_prop r ''value'' \<noteq> JNull \<and> get_prop r ''value'' \<noteq> JUndefined))"
  by (auto simp add: isPresent_def isOk_def isErr_def ok_def)

section \<open>Result.err\<close>

text \<open>What \<open>err\<close> does with a string, with \<open>null\<close> and \<open>undefined\<close>, and with a number.\<close>

lemma err_string: "err (JStr s) = JObj [(''cause'', JError ''Error'' (Some s) [])]"
  by (simp add: err_def new_Error_def)

lemma err_boom_message: "get_prop (get_prop (err (JStr ''boom'')) ''cause'') ''message'' = JStr ''boom''"
  by (simp add: err_string)

lemma err_nullish:
  "err JNull = JObj [(''cause'', JError ''Error'' None [])]"
  "err JUndefined = JObj [(''cause'', JError ''Error'' None [])]"
  "get_prop (get_prop (err JNull) ''cause'') ''message'' = JStr []"
  "get_prop (get_prop (err JUndefined) ''cause'') ''message'' = JStr []"
  by (simp_all add: err_def new_Error_def)

lemma err_Error: "err (JError name msg props) = JObj [(''cause'', JError name msg props)]"
  by (simp add: err_def)

text \<open>
  C3. \<open>Result.err\<close> on the object \<open>{message: 404}\<close>. The code computes the string
  \<open>"404"\<close> and builds \<open>{...cause, ...new Error("404")}\<close>; the \<open>message\<close> of the new
  \<open>Error\<close> is not enumerable, the spread does not copy it, and the cause keeps the
  number \<open>404\<close> as its message. The claim, and the comment above the overload in
  \<open>Result.ts\<close>, say that the message is converted to the string \<open>"404"\<close>.
\<close>

theorem err_message_object_keeps_number:
  "err (JObj [(''message'', JNum 404)]) = JObj [(''cause'', JObj [(''message'', JNum 404)])]
   \<and> get_prop (get_prop (err (JObj [(''message'', JNum 404)])) ''cause'') ''message'' = JNum 404
   \<and> get_prop (get_prop (err (JObj [(''message'', JNum 404)])) ''cause'') ''message'' \<noteq> JStr ''404''"
  by (simp add: err_def spread2_def new_Error_def)

section \<open>AsyncResultGenerator.from never throws\<close>

lemma generator_next_Completed:
  "generator_next body (Completed s) = Some (Fulfilled (IterDone JUndefined), Completed s)"
  by (simp add: generator_next_def)







section \<open>Pagination\<close>


lemma searchKeys_next_body:
  "pager_body (DYNAMO_send env) p = pager_body (DYNAMO_send env) p'
   \<Longrightarrow> searchKeys_next env (Suspended p) = searchKeys_next env (Suspended p')"
  by (simp add: searchKeys_next_def AsyncResultGenerator_from_def generator_next_def)


lemma pager_decode_failure:
  assumes "position p = InItems (i # rest) lek" "extractKeyMetadata i = Inl cause"
  shows "searchKeys_next env (Suspended p)
           = Some (Fulfilled (IterDone (err cause)), Completed (p\<lparr>position := InItems rest lek\<rparr>))"
  using assms
  by (subst searchKeys_next_def, subst AsyncResultGenerator_from_def, subst generator_next_def,
      subst pager_body.simps) simp




lemma pager_first_page:
  assumes "position p = BeforeFirstSend" and "DYNAMO_send env (request p) = Inr q"
  shows "searchKeys_next env (Suspended p)
           = searchKeys_next env
               (Suspended (p\<lparr>position := InItems (response_Items q) (LastEvaluatedKey q),
                             sent := sent p @ [request p]\<rparr>))"
  apply (rule searchKeys_next_body)
  apply (subst pager_body.simps)
  using assms apply simp
  done


lemma pulls_Suc_cong:
  "nxt s = nxt t \<Longrightarrow> pulls nxt (Suc n) s = pulls nxt (Suc n) t"
  by simp








section \<open>Decoding a record\<close>

lemma findKeyByFingerprint_decode_failure:
  assumes "DYNAMO_send env (findKeyByFingerprint_request env l) = Inr response"
      and "Item response = Some item" and "extractKeyMetadata item = Inl cause"
  shows "findKeyByFingerprint env l = err cause"
  using assms by (simp add: findKeyByFingerprint_def AsyncResult_run_def)

text \<open>
  C8 (as amended). A record decodes when its unfolded mapping has \<open>pgpKeyId\<close>,
  \<open>pgpFingerprintUpper\<close> and \<open>primaryUserId\<close> as strings: the derived record has
  \<open>id = pgpKeyId\<close>, \<open>fingerprint = pgpFingerprintUpper ++ pgpKeyId\<close>, keeps
  \<open>primaryUserId\<close> and every other field, and has lost the two source-only fields.
  When one of the three is absent or not a string, \<open>extractKeyMetadata\<close> raises an
  \<open>AssertionError\<close> at once. Both of its call sites run inside a wrapper that catches
  it, so the consumer receives it as a \<open>Result\<close> failure: a paginated sequence
  terminates with \<open>Err\<close> of the assertion at that record, and
  \<open>findKeyByFingerprint\<close> fulfils with \<open>Err\<close> of it.
\<close>

theorem extractKeyMetadata_contract:
  assumes "unfoldAttributes item = Inr result"
  shows "(map_of result ''pgpKeyId'' = Some (JStr keyId)
          \<and> map_of result ''pgpFingerprintUpper'' = Some (JStr upper)
          \<and> map_of result ''primaryUserId'' = Some (JStr uid) \<longrightarrow>
            (\<exists>keyMeta. extractKeyMetadata item = Inr (JObj keyMeta)
               \<and> map_of keyMeta ''id'' = Some (JStr keyId)
               \<and> map_of keyMeta ''fingerprint'' = Some (JStr (upper @ keyId))
               \<and> map_of keyMeta ''primaryUserId'' = Some (JStr uid)
               \<and> map_of keyMeta ''pgpKeyId'' = None
               \<and> map_of keyMeta ''pgpFingerprintUpper'' = None
               \<and> (\<forall>k. k \<noteq> ''id'' \<and> k \<noteq> ''fingerprint'' \<and> k \<noteq> ''pgpKeyId'' \<and> k \<noteq> ''pgpFingerprintUpper''
                      \<longrightarrow> map_of keyMeta k = map_of result k)))
       \<and> (typeof (get_prop (JObj result) ''pgpKeyId'') \<noteq> ''string''
          \<or> typeof (get_prop (JObj result) ''pgpFingerprintUpper'') \<noteq> ''string''
          \<or> typeof (get_prop (JObj result) ''primaryUserId'') \<noteq> ''string'' \<longrightarrow>
            extractKeyMetadata item = Inl AssertionError
            \<and> (position p = InItems (item # rest) lek \<longrightarrow>
                 searchKeys_next env (Suspended p)
                   = Some (Fulfilled (IterDone (err AssertionError)),
                           Completed (p\<lparr>position := InItems rest lek\<rparr>)))
            \<and> (DYNAMO_send env (findKeyByFingerprint_request env l) = Inr response
                 \<and> Item response = Some item \<longrightarrow>
                 findKeyByFingerprint env l = err AssertionError \<and> isErr (findKeyByFingerprint env l)))"
proof -
  have good: "\<exists>keyMeta. extractKeyMetadata item = Inr (JObj keyMeta)
               \<and> map_of keyMeta ''id'' = Some (JStr keyId)
               \<and> map_of keyMeta ''fingerprint'' = Some (JStr (upper @ keyId))
               \<and> map_of keyMeta ''primaryUserId'' = Some (JStr uid)
               \<and> map_of keyMeta ''pgpKeyId'' = None
               \<and> map_of keyMeta ''pgpFingerprintUpper'' = None
               \<and> (\<forall>k. k \<noteq> ''id'' \<and> k \<noteq> ''fingerprint'' \<and> k \<noteq> ''pgpKeyId'' \<and> k \<noteq> ''pgpFingerprintUpper''
                      \<longrightarrow> map_of keyMeta k = map_of result k)"
    if s: "map_of result ''pgpKeyId'' = Some (JStr keyId)
          \<and> map_of result ''pgpFingerprintUpper'' = Some (JStr upper)
          \<and> map_of result ''primaryUserId'' = Some (JStr uid)"
  proof -
    let ?km = "delete_prop ''pgpFingerprintUpper'' (delete_prop ''pgpKeyId''
                 (set_prop ''fingerprint'' (JStr (upper @ keyId)) (set_prop ''id'' (JStr keyId) result)))"
    have "extractKeyMetadata item = Inr (JObj ?km)"
      using assms s by (simp add: extractKeyMetadata_def Let_def set_prop_def update_conv')
    moreover have "map_of ?km = ((map_of result)(''id'' \<mapsto> JStr keyId, ''fingerprint'' \<mapsto> JStr (upper @ keyId)))
                                  (''pgpKeyId'' := None, ''pgpFingerprintUpper'' := None)"
      by (simp add: set_prop_def delete_prop_def update_conv' delete_conv')
    ultimately show ?thesis
      using s by (intro exI [of _ ?km]) simp
  qed
  have raises: "extractKeyMetadata item = Inl AssertionError"
    if "typeof (get_prop (JObj result) ''pgpKeyId'') \<noteq> ''string''
          \<or> typeof (get_prop (JObj result) ''pgpFingerprintUpper'') \<noteq> ''string''
          \<or> typeof (get_prop (JObj result) ''primaryUserId'') \<noteq> ''string''"
    using assms that by (auto simp: extractKeyMetadata_def)
  have paged: "searchKeys_next env (Suspended p)
                   = Some (Fulfilled (IterDone (err AssertionError)),
                           Completed (p\<lparr>position := InItems rest lek\<rparr>))"
    if "extractKeyMetadata item = Inl AssertionError" "position p = InItems (item # rest) lek"
    using pager_decode_failure [of p item rest lek AssertionError env] that by blast
  have found: "findKeyByFingerprint env l = err AssertionError \<and> isErr (findKeyByFingerprint env l)"
    if "extractKeyMetadata item = Inl AssertionError"
       "DYNAMO_send env (findKeyByFingerprint_request env l) = Inr response \<and> Item response = Some item"
    using findKeyByFingerprint_decode_failure [of env l response item AssertionError] that isErr_err
    by auto
  from good raises paged found show ?thesis by blast
qed


theorem extractKeyMetadata_contract_witness:
  "(\<exists>keyMeta. extractKeyMetadata (demo_item ''0011223344556677'' ''AABBCCDD'' ''alice'') = Inr (JObj keyMeta)
       \<and> map_of keyMeta ''id'' = Some (JStr ''0011223344556677'')
       \<and> map_of keyMeta ''fingerprint'' = Some (JStr ''AABBCCDD0011223344556677'')
       \<and> map_of keyMeta ''primaryUserId'' = Some (JStr ''alice'')
       \<and> map_of keyMeta ''pgpKeyId'' = None
       \<and> map_of keyMeta ''pgpFingerprintUpper'' = None)
   \<and> extractKeyMetadata demo_malformed_item = Inl AssertionError
   \<and> searchKeys_next (demo_env\<lparr>DYNAMO_send := demo_table_malformed\<rparr>)
         (Suspended \<lparr>request = demo_scan, position = InItems [demo_malformed_item] None, sent = [demo_scan]\<rparr>)
       = Some (Fulfilled (IterDone (err AssertionError)),
               Completed \<lparr>request = demo_scan, position = InItems [] None, sent = [demo_scan]\<rparr>)
   \<and> findKeyByFingerprint (demo_env\<lparr>DYNAMO_send := demo_table_malformed\<rparr>)
         (demo_lookup ''AABBCCDDAABBCCDD0011223344556677'') = err AssertionError"
proof -
  let ?env = "demo_env\<lparr>DYNAMO_send := demo_table_malformed\<rparr>"
  let ?good = "[(''pgpKeyId'', JStr ''0011223344556677''), (''pgpFingerprintUpper'', JStr ''AABBCCDD''),
                (''primaryUserId'', JStr ''alice'')]"
  let ?bad = "[(''pgpKeyId'', JStr ''0011223344556677''), (''pgpFingerprintUpper'', JStr ''AABBCCDD'')]"
  let ?p = "\<lparr>request = demo_scan, position = InItems [demo_malformed_item] None, sent = [demo_scan]\<rparr>"
  let ?response = "\<lparr>Items = Some [demo_malformed_item], LastEvaluatedKey = None, Item = Some demo_malformed_item\<rparr>"
  have g: "unfoldAttributes (demo_item ''0011223344556677'' ''AABBCCDD'' ''alice'') = Inr ?good"
    by (simp add: demo_item_def unfoldAttributes_def unfoldAttribute_def set_prop_def)
  have b: "unfoldAttributes demo_malformed_item = Inr ?bad"
    by (simp add: demo_malformed_item_def unfoldAttributes_def unfoldAttribute_def set_prop_def)
  have t: "typeof (get_prop (JObj ?bad) ''primaryUserId'') \<noteq> ''string''"
    by simp
  have r: "DYNAMO_send ?env (findKeyByFingerprint_request ?env (demo_lookup ''AABBCCDDAABBCCDD0011223344556677'')) = Inr ?response
           \<and> Item ?response = Some demo_malformed_item"
    by (simp add: demo_table_malformed_def)
  note good = extractKeyMetadata_contract [OF g, where keyId = "''0011223344556677''"
      and upper = "''AABBCCDD''" and uid = "''alice''", THEN conjunct1]
  note bad = extractKeyMetadata_contract [OF b, where p = ?p and rest = "[]" and lek = None
      and env = ?env and l = "demo_lookup ''AABBCCDDAABBCCDD0011223344556677''" and response = ?response,
      THEN conjunct2]
  from good have 1: "\<exists>keyMeta. extractKeyMetadata (demo_item ''0011223344556677'' ''AABBCCDD'' ''alice'') = Inr (JObj keyMeta)
       \<and> map_of keyMeta ''id'' = Some (JStr ''0011223344556677'')
       \<and> map_of keyMeta ''fingerprint'' = Some (JStr ''AABBCCDD0011223344556677'')
       \<and> map_of keyMeta ''primaryUserId'' = Some (JStr ''alice'')
       \<and> map_of keyMeta ''pgpKeyId'' = None
       \<and> map_of keyMeta ''pgpFingerprintUpper'' = None"
    by auto
  from bad t r have 2: "extractKeyMetadata demo_malformed_item = Inl AssertionError
   \<and> searchKeys_next ?env (Suspended ?p)
       = Some (Fulfilled (IterDone (err AssertionError)),
               Completed \<lparr>request = demo_scan, position = InItems [] None, sent = [demo_scan]\<rparr>)
   \<and> findKeyByFingerprint ?env (demo_lookup ''AABBCCDDAABBCCDD0011223344556677'') = err AssertionError"
    by simp
  from 1 2 show ?thesis by blast
qed

text \<open>
  The claim as stated says that the violation is not delivered as a \<open>Result\<close> failure.
  On a table whose record lacks \<open>primaryUserId\<close>, the id path terminates with
  \<open>Err\<close> of the assertion, and so does the point lookup.
\<close>

theorem malformed_record_delivered_as_Err:
  "map_option fst
     (searchKeys_next (demo_env\<lparr>DYNAMO_send := demo_table_malformed\<rparr>)
        (searchKeysById (demo_env\<lparr>DYNAMO_send := demo_table_malformed\<rparr>) (demo_lookup ''0011223344556677'')))
     = Some (Fulfilled (IterDone (JObj [(''cause'', AssertionError)])))
   \<and> isErr (JObj [(''cause'', AssertionError)])
   \<and> findKeyByFingerprint (demo_env\<lparr>DYNAMO_send := demo_table_malformed\<rparr>)
         (demo_lookup ''AABBCCDDAABBCCDD0011223344556677'') = JObj [(''cause'', AssertionError)]"
proof -
  let ?env = "demo_env\<lparr>DYNAMO_send := demo_table_malformed\<rparr>"
  have x: "extractKeyMetadata demo_malformed_item = Inl AssertionError"
    by (simp add: extractKeyMetadata_def demo_malformed_item_def unfoldAttributes_def unfoldAttribute_def
        set_prop_def)
  have e: "err AssertionError = JObj [(''cause'', AssertionError)]"
    by (simp add: err_def AssertionError_def)
  have "searchKeys_next ?env (searchKeysById ?env (demo_lookup ''0011223344556677''))
      = searchKeys_next ?env
          (Suspended \<lparr>request = searchKeysById_request ?env (demo_lookup ''0011223344556677''),
                      position = InItems [demo_malformed_item] None,
                      sent = [searchKeysById_request ?env (demo_lookup ''0011223344556677'')]\<rparr>)"
    using pager_first_page [of "\<lparr>request = searchKeysById_request ?env (demo_lookup ''0011223344556677''),
                                  position = BeforeFirstSend, sent = []\<rparr>" ?env
                               "\<lparr>Items = Some [demo_malformed_item], LastEvaluatedKey = None,
                                  Item = Some demo_malformed_item\<rparr>"]
    by (simp add: searchKeysById_def demo_table_malformed_def response_Items_def)
  also have "\<dots> = Some (Fulfilled (IterDone (err AssertionError)),
                        Completed \<lparr>request = searchKeysById_request ?env (demo_lookup ''0011223344556677''),
                      position = InItems [] None,
                      sent = [searchKeysById_request ?env (demo_lookup ''0011223344556677'')]\<rparr>)"
    using pager_decode_failure [of "\<lparr>request = searchKeysById_request ?env (demo_lookup ''0011223344556677''),
                      position = InItems [demo_malformed_item] None,
                      sent = [searchKeysById_request ?env (demo_lookup ''0011223344556677'')]\<rparr>"
                      demo_malformed_item "[]" None AssertionError ?env] x
    by simp
  finally have 1: "map_option fst (searchKeys_next ?env (searchKeysById ?env (demo_lookup ''0011223344556677'')))
     = Some (Fulfilled (IterDone (JObj [(''cause'', AssertionError)])))"
    by (simp add: e)
  have 2: "findKeyByFingerprint ?env (demo_lookup ''AABBCCDDAABBCCDD0011223344556677'') = JObj [(''cause'', AssertionError)]"
    by (simp add: findKeyByFingerprint_def demo_table_malformed_def x AsyncResult_run_def e)
  have 3: "isErr (JObj [(''cause'', AssertionError)])"
    by (simp add: isErr_def)
  from 1 2 3 show ?thesis by simp
qed

section \<open>The fingerprint path\<close>

lemma pulls_generator_Completed:
  "pulls (generator_next body) n (Completed s)
     = Some (replicate n (Fulfilled (IterDone JUndefined)), Completed s)"
  by (induction n) (simp_all add: generator_next_def)

lemma slice_split:
  "slice_but_last16 m @ slice_last16 m = m"
  "16 \<le> length m \<Longrightarrow> length (slice_last16 m) = 16"
  by (simp_all add: slice_but_last16_def slice_last16_def)

lemma findKeyByFingerprint_miss:
  "DYNAMO_send env (findKeyByFingerprint_request env l) = Inr response \<Longrightarrow> Item response = None
   \<Longrightarrow> findKeyByFingerprint env l = ok JUndefined"
  by (simp add: findKeyByFingerprint_def AsyncResult_run_def)

lemma findKeyByFingerprint_failure:
  "DYNAMO_send env (findKeyByFingerprint_request env l) = Inl cause
   \<Longrightarrow> findKeyByFingerprint env l = err cause"
  by (simp add: findKeyByFingerprint_def AsyncResult_run_def)

lemma not_isPresent_ok_undefined: "\<not> isPresent (ok JUndefined)"
  by (simp add: isPresent_def ok_def)

lemma not_isPresent_err: "\<not> isPresent (err cause)"
  using err_shape [of cause] by (auto simp: isPresent_def)

lemma err_neq_ok: "err cause \<noteq> ok v"
  using err_shape [of cause] by (auto simp: ok_def)

lemma fingerprint_path_run:
  assumes "HEX_REGEX_match env (search l) = Some m"
      and "length m = 32 \<or> length m = 40 \<or> length m = 64"
  shows "\<exists>rs g. pulls (searchKeysByBestGuess_next env) (Suc n) (searchKeysByBestGuess l) = Some (rs, g)
           \<and> commands_sent g = [findKeyByFingerprint_request env (l\<lparr>search := m\<rparr>)]
           \<and> kind (findKeyByFingerprint_request env (l\<lparr>search := m\<rparr>)) = GetItemCommand
           \<and> Key (findKeyByFingerprint_request env (l\<lparr>search := m\<rparr>))
               = Some [(''pgpKeyId'', JObj [(''S'', JStr (toUpperCase (slice_last16 m)))]),
                       (''pgpFingerprintUpper'', JObj [(''S'', JStr (toUpperCase (slice_but_last16 m)))])]
           \<and> slice_but_last16 m @ slice_last16 m = m \<and> length (slice_last16 m) = 16
           \<and> length (filter is_item rs) \<le> 1
           \<and> (\<forall>response. DYNAMO_send env (findKeyByFingerprint_request env (l\<lparr>search := m\<rparr>)) = Inr response
                    \<and> Item response = None
                 \<longrightarrow> rs = Fulfilled (IterDone (ok JUndefined)) # replicate n (Fulfilled (IterDone JUndefined)))
           \<and> (\<forall>cause. DYNAMO_send env (findKeyByFingerprint_request env (l\<lparr>search := m\<rparr>)) = Inl cause
                 \<longrightarrow> rs = Fulfilled (IterDone (err cause)) # replicate n (Fulfilled (IterDone JUndefined)))"
proof -
  let ?l1 = "l\<lparr>search := m\<rparr>"
  let ?req = "findKeyByFingerprint_request env ?l1"
  let ?result = "findKeyByFingerprint env ?l1"
  let ?st2 = "\<lparr>lookup = ?l1, stage = AtStart, issued = [?req]\<rparr>"
  let ?nxt = "searchKeysByBestGuess_next env"
  have len: "16 \<le> length m" using assms(2) by auto
  have key: "kind ?req = GetItemCommand
           \<and> Key ?req = Some [(''pgpKeyId'', JObj [(''S'', JStr (toUpperCase (slice_last16 m)))]),
                       (''pgpFingerprintUpper'', JObj [(''S'', JStr (toUpperCase (slice_but_last16 m)))])]
           \<and> slice_but_last16 m @ slice_last16 m = m \<and> length (slice_last16 m) = 16"
    using slice_split [of m] len by (simp add: findKeyByFingerprint_request_def)
  have body: "searchKeysByBestGuess_body env \<lparr>lookup = l, stage = AtStart, issued = []\<rparr>
      = (if isErr ?result then Some (Returns ?result ?st2)
         else if isPresent ?result
         then Some (Yields (get_prop ?result ''value'') (?st2\<lparr>stage := AfterYield\<rparr>))
         else Some (Returns (ok JUndefined) ?st2))"
    using assms by (simp add: searchKeysByBestGuess_body_def Let_def)
  have after: "searchKeysByBestGuess_body env (?st2\<lparr>stage := AfterYield\<rparr>)
      = Some (Returns (ok JUndefined) (?st2\<lparr>stage := AfterYield\<rparr>))"
    by (simp add: searchKeysByBestGuess_body_def)
  have miss: "?result = ok JUndefined"
    if "DYNAMO_send env ?req = Inr response \<and> Item response = None" for response
    using that findKeyByFingerprint_miss by blast
  have failure: "?result = err cause" if "DYNAMO_send env ?req = Inl cause" for cause
    using that findKeyByFingerprint_failure by blast
  have no_both: "\<not> (DYNAMO_send env ?req = Inr response \<and> DYNAMO_send env ?req = Inl cause)" for response cause
    by auto
  consider (err) "isErr ?result" | (present) "\<not> isErr ?result" "isPresent ?result"
    | (absent) "\<not> isErr ?result" "\<not> isPresent ?result"
    by blast
  then show ?thesis
  proof cases
    case err
    let ?rs = "Fulfilled (IterDone ?result) # replicate n (Fulfilled (IterDone JUndefined))"
    have "pulls ?nxt (Suc n) (searchKeysByBestGuess l) = Some (?rs, Completed ?st2)"
      using err body
      by (simp add: searchKeysByBestGuess_next_def searchKeysByBestGuess_def generator_next_def
          pulls_generator_Completed)
    moreover have "commands_sent (Completed ?st2) = [?req]" by (simp add: commands_sent_def)
    moreover have "length (filter is_item ?rs) \<le> 1" by simp
    moreover have "?rs = Fulfilled (IterDone (ok JUndefined)) # replicate n (Fulfilled (IterDone JUndefined))"
      if "DYNAMO_send env ?req = Inr response \<and> Item response = None" for response
      using miss [OF that] err not_isErr_ok by simp
    moreover have "?rs = Fulfilled (IterDone (err cause)) # replicate n (Fulfilled (IterDone JUndefined))"
      if "DYNAMO_send env ?req = Inl cause" for cause
      using failure [OF that] by simp
    ultimately show ?thesis using key by blast
  next
    case absent
    let ?rs = "Fulfilled (IterDone (ok JUndefined)) # replicate n (Fulfilled (IterDone JUndefined))"
    have "pulls ?nxt (Suc n) (searchKeysByBestGuess l) = Some (?rs, Completed ?st2)"
      using absent body
      by (simp add: searchKeysByBestGuess_next_def searchKeysByBestGuess_def generator_next_def
          pulls_generator_Completed)
    moreover have "commands_sent (Completed ?st2) = [?req]" by (simp add: commands_sent_def)
    moreover have "length (filter is_item ?rs) \<le> 1" by simp
    moreover have "?rs = Fulfilled (IterDone (err cause)) # replicate n (Fulfilled (IterDone JUndefined))"
      if "DYNAMO_send env ?req = Inl cause" for cause
      using failure [OF that] absent isErr_err by simp
    ultimately show ?thesis using key by blast
  next
    case present
    let ?v = "get_prop ?result ''value''"
    let ?st3 = "?st2\<lparr>stage := AfterYield\<rparr>"
    let ?tail = "case n of 0 \<Rightarrow> [] | Suc k \<Rightarrow> Fulfilled (IterDone (ok JUndefined)) # replicate k (Fulfilled (IterDone JUndefined))"
    let ?rs = "Fulfilled (IterValue ?v) # ?tail"
    let ?g = "case n of 0 \<Rightarrow> Suspended ?st3 | Suc k \<Rightarrow> Completed ?st3"
    have first: "?nxt (searchKeysByBestGuess l) = Some (Fulfilled (IterValue ?v), Suspended ?st3)"
      using present body
      by (simp add: searchKeysByBestGuess_next_def searchKeysByBestGuess_def generator_next_def)
    have rest: "pulls ?nxt n (Suspended ?st3) = Some (?tail, ?g)"
      using after
      by (cases n) (simp_all add: searchKeysByBestGuess_next_def generator_next_def pulls_generator_Completed)
    have "pulls ?nxt (Suc n) (searchKeysByBestGuess l) = Some (?rs, ?g)"
      using first rest by simp
    moreover have "commands_sent ?g = [?req]" by (cases n) (simp_all add: commands_sent_def)
    moreover have "length (filter is_item ?rs) \<le> 1" by (cases n) simp_all
    moreover have "\<not> (DYNAMO_send env ?req = Inr response \<and> Item response = None)" for response
    proof
      assume "DYNAMO_send env ?req = Inr response \<and> Item response = None"
      from miss [OF this] present(2) not_isPresent_ok_undefined show False by simp
    qed
    moreover have "\<not> (DYNAMO_send env ?req = Inl cause)" for cause
    proof
      assume "DYNAMO_send env ?req = Inl cause"
      from failure [OF this] present(1) isErr_err show False by simp
    qed
    ultimately show ?thesis using key by blast
  qed
qed


lemma hex_lowercase_fingerprint:
  "HEX_REGEX ''aabbccddeeff00112233445566778899'' = Some ''aabbccddeeff00112233445566778899''"
  by (simp add: HEX_REGEX_def is_hex_digit_def)

lemma hex_marked_fingerprint:
  "HEX_REGEX ''0xAABBCCDDEEFF00112233445566778899AABBCCDD'' = Some ''AABBCCDDEEFF00112233445566778899AABBCCDD''"
  by (simp add: HEX_REGEX_def is_hex_digit_def)

text \<open>
  C5 (as amended). A search string that matches the hex pattern with a normalized length
  of 32, 40 or 64: however often the sequence is pulled, it has sent exactly one command,
  a point lookup whose key is the \<^emph>\<open>upper-cased\<close> split of the normalized string, the
  last 16 characters as \<open>pgpKeyId\<close> and the characters before them as
  \<open>pgpFingerprintUpper\<close>; at most one pull yields an item; a miss terminates the
  sequence with \<open>Ok\<close> at the first pull, and a failure of the lookup with \<open>Err\<close>
  of its cause.
\<close>

theorem fingerprint_path:
  assumes "HEX_REGEX_match env (search l) = Some m"
      and "length m = 32 \<or> length m = 40 \<or> length m = 64"
  shows "commands_after_pulls env l (Suc n) = Some [findKeyByFingerprint_request env (l\<lparr>search := m\<rparr>)]
         \<and> kind (findKeyByFingerprint_request env (l\<lparr>search := m\<rparr>)) = GetItemCommand
         \<and> Key (findKeyByFingerprint_request env (l\<lparr>search := m\<rparr>))
               = Some [(''pgpKeyId'', JObj [(''S'', JStr (toUpperCase (slice_last16 m)))]),
                       (''pgpFingerprintUpper'', JObj [(''S'', JStr (toUpperCase (slice_but_last16 m)))])]
         \<and> slice_but_last16 m @ slice_last16 m = m \<and> length (slice_last16 m) = 16
         \<and> (\<exists>rs g. pulls (searchKeysByBestGuess_next env) (Suc n) (searchKeysByBestGuess l) = Some (rs, g)
               \<and> length (filter is_item rs) \<le> 1
               \<and> (\<forall>response. DYNAMO_send env (findKeyByFingerprint_request env (l\<lparr>search := m\<rparr>)) = Inr response
                        \<and> Item response = None
                     \<longrightarrow> rs = Fulfilled (IterDone (ok JUndefined)) # replicate n (Fulfilled (IterDone JUndefined)))
               \<and> (\<forall>cause. DYNAMO_send env (findKeyByFingerprint_request env (l\<lparr>search := m\<rparr>)) = Inl cause
                     \<longrightarrow> rs = Fulfilled (IterDone (err cause)) # replicate n (Fulfilled (IterDone JUndefined))))"
proof -
  from fingerprint_path_run [OF assms, of n] obtain rs g where
    run: "pulls (searchKeysByBestGuess_next env) (Suc n) (searchKeysByBestGuess l) = Some (rs, g)"
    and sent: "commands_sent g = [findKeyByFingerprint_request env (l\<lparr>search := m\<rparr>)]"
    and rest: "kind (findKeyByFingerprint_request env (l\<lparr>search := m\<rparr>)) = GetItemCommand
           \<and> Key (findKeyByFingerprint_request env (l\<lparr>search := m\<rparr>))
               = Some [(''pgpKeyId'', JObj [(''S'', JStr (toUpperCase (slice_last16 m)))]),
                       (''pgpFingerprintUpper'', JObj [(''S'', JStr (toUpperCase (slice_but_last16 m)))])]
           \<and> slice_but_last16 m @ slice_last16 m = m \<and> length (slice_last16 m) = 16
           \<and> length (filter is_item rs) \<le> 1
           \<and> (\<forall>response. DYNAMO_send env (findKeyByFingerprint_request env (l\<lparr>search := m\<rparr>)) = Inr response
                    \<and> Item response = None
                 \<longrightarrow> rs = Fulfilled (IterDone (ok JUndefined)) # replicate n (Fulfilled (IterDone JUndefined)))
           \<and> (\<forall>cause. DYNAMO_send env (findKeyByFingerprint_request env (l\<lparr>search := m\<rparr>)) = Inl cause
                 \<longrightarrow> rs = Fulfilled (IterDone (err cause)) # replicate n (Fulfilled (IterDone JUndefined)))"
    by blast
  from run sent have "commands_after_pulls env l (Suc n) = Some [findKeyByFingerprint_request env (l\<lparr>search := m\<rparr>)]"
    by (simp add: commands_after_pulls_def del: pulls.simps)
  with run rest show ?thesis by blast
qed

theorem fingerprint_path_witness:
  "commands_after_pulls demo_env (demo_lookup ''0xAABBCCDDEEFF00112233445566778899AABBCCDD'') 2
     = Some [findKeyByFingerprint_request demo_env (demo_lookup ''AABBCCDDEEFF00112233445566778899AABBCCDD'')]
   \<and> Key (findKeyByFingerprint_request demo_env (demo_lookup ''AABBCCDDEEFF00112233445566778899AABBCCDD''))
       = Some [(''pgpKeyId'', JObj [(''S'', JStr ''66778899AABBCCDD'')]),
               (''pgpFingerprintUpper'', JObj [(''S'', JStr ''AABBCCDDEEFF001122334455'')])]
   \<and> pulls (searchKeysByBestGuess_next demo_env) 2
         (searchKeysByBestGuess (demo_lookup ''0xAABBCCDDEEFF00112233445566778899AABBCCDD''))
       = Some ([Fulfilled (IterDone (ok JUndefined)), Fulfilled (IterDone JUndefined)],
               Completed \<lparr>lookup = demo_lookup ''AABBCCDDEEFF00112233445566778899AABBCCDD'', stage = AtStart,
                          issued = [findKeyByFingerprint_request demo_env
                                      (demo_lookup ''AABBCCDDEEFF00112233445566778899AABBCCDD'')]\<rparr>)"
proof -
  let ?l = "demo_lookup ''0xAABBCCDDEEFF00112233445566778899AABBCCDD''"
  let ?m = "''AABBCCDDEEFF00112233445566778899AABBCCDD''"
  let ?page = "\<lparr>Items = Some [demo_item ''0011223344556677'' ''AABBCCDD'' ''alice''],
                LastEvaluatedKey = Some (JStr ''token1''), Item = None\<rparr>"
  have m: "HEX_REGEX_match demo_env (search ?l) = Some ?m"
    by (simp add: demo_env_def demo_lookup_def hex_marked_fingerprint)
  have l: "?l\<lparr>search := ?m\<rparr> = demo_lookup ?m"
    by (simp add: demo_lookup_def)
  have miss: "DYNAMO_send demo_env (findKeyByFingerprint_request demo_env (demo_lookup ?m)) = Inr ?page
              \<and> Item ?page = None"
    by (simp add: demo_env_def demo_table_def findKeyByFingerprint_request_def)
  from fingerprint_path [OF m, of 1, unfolded l] miss
  obtain rs g where sent: "commands_after_pulls demo_env ?l (Suc 1) = Some [findKeyByFingerprint_request demo_env (demo_lookup ?m)]"
    and key: "Key (findKeyByFingerprint_request demo_env (demo_lookup ?m))
               = Some [(''pgpKeyId'', JObj [(''S'', JStr (toUpperCase (slice_last16 ?m)))]),
                       (''pgpFingerprintUpper'', JObj [(''S'', JStr (toUpperCase (slice_but_last16 ?m)))])]"
    and run: "pulls (searchKeysByBestGuess_next demo_env) (Suc 1) (searchKeysByBestGuess ?l) = Some (rs, g)"
    and rs: "rs = Fulfilled (IterDone (ok JUndefined)) # replicate 1 (Fulfilled (IterDone JUndefined))"
    by auto
  have two: "Suc 1 = 2" by simp
  from sent run [unfolded rs] have g: "commands_sent g = [findKeyByFingerprint_request demo_env (demo_lookup ?m)]"
    by (simp add: commands_after_pulls_def del: pulls.simps)
  have "pulls (searchKeysByBestGuess_next demo_env) 2 (searchKeysByBestGuess ?l)
       = Some ([Fulfilled (IterDone (ok JUndefined)), Fulfilled (IterDone JUndefined)],
               Completed \<lparr>lookup = demo_lookup ?m, stage = AtStart,
                          issued = [findKeyByFingerprint_request demo_env (demo_lookup ?m)]\<rparr>)"
    using miss m
    by (simp add: numeral_2_eq_2 searchKeysByBestGuess_next_def searchKeysByBestGuess_def generator_next_def
        searchKeysByBestGuess_body_def demo_lookup_def findKeyByFingerprint_def AsyncResult_run_def
        isErr_def isPresent_def ok_def)
  moreover have "toUpperCase (slice_last16 ?m) = ''66778899AABBCCDD''"
    "toUpperCase (slice_but_last16 ?m) = ''AABBCCDDEEFF001122334455''"
    by (simp_all add: toUpperCase_def slice_last16_def slice_but_last16_def)
  ultimately show ?thesis using sent key by (simp only: two)
qed

text \<open>
  The claim as stated keys the lookup by the split itself. On the lower-case fingerprint
  \<open>aabbccddeeff00112233445566778899\<close> the key sent has \<open>AABBCCDDEEFF0011\<close> as
  \<open>pgpFingerprintUpper\<close>, which is not the leading part \<open>aabbccddeeff0011\<close> of the
  string.
\<close>

theorem fingerprint_key_is_uppercased:
  "map_option (map Key) (commands_after_pulls demo_env (demo_lookup ''aabbccddeeff00112233445566778899'') 1)
     = Some [Some [(''pgpKeyId'', JObj [(''S'', JStr ''2233445566778899'')]),
                   (''pgpFingerprintUpper'', JObj [(''S'', JStr ''AABBCCDDEEFF0011'')])]]
   \<and> map_option (map Key) (commands_after_pulls demo_env (demo_lookup ''aabbccddeeff00112233445566778899'') 1)
     \<noteq> Some [Some [(''pgpKeyId'', JObj [(''S'', JStr (slice_last16 ''aabbccddeeff00112233445566778899''))]),
                   (''pgpFingerprintUpper'',
                    JObj [(''S'', JStr (slice_but_last16 ''aabbccddeeff00112233445566778899''))])]]
   \<and> HEX_REGEX ''aabbccddeeff00112233445566778899'' = Some ''aabbccddeeff00112233445566778899''"
proof -
  let ?s = "''aabbccddeeff00112233445566778899''"
  have "pulls (searchKeysByBestGuess_next demo_env) 1 (searchKeysByBestGuess (demo_lookup ?s))
    = Some ([Fulfilled (IterDone (ok JUndefined))],
            Completed \<lparr>lookup = demo_lookup ?s, stage = AtStart,
                        issued = [findKeyByFingerprint_request demo_env (demo_lookup ?s)]\<rparr>)"
    by (simp add: searchKeysByBestGuess_next_def searchKeysByBestGuess_def generator_next_def
        searchKeysByBestGuess_body_def demo_env_def demo_lookup_def hex_lowercase_fingerprint
        findKeyByFingerprint_def AsyncResult_run_def demo_table_def findKeyByFingerprint_request_def
        isErr_def isPresent_def ok_def)
  then have sent: "commands_after_pulls demo_env (demo_lookup ?s) 1
     = Some [findKeyByFingerprint_request demo_env (demo_lookup ?s)]"
    by (simp add: commands_after_pulls_def commands_sent_def del: pulls.simps)
  have "Key (findKeyByFingerprint_request demo_env (demo_lookup ?s))
      = Some [(''pgpKeyId'', JObj [(''S'', JStr ''2233445566778899'')]),
              (''pgpFingerprintUpper'', JObj [(''S'', JStr ''AABBCCDDEEFF0011'')])]"
    by (simp add: findKeyByFingerprint_request_def demo_lookup_def toUpperCase_def slice_last16_def
        slice_but_last16_def)
  moreover have "slice_but_last16 ?s = ''aabbccddeeff0011''"
    by (simp add: slice_but_last16_def)
  ultimately show ?thesis
    unfolding sent using hex_lowercase_fingerprint by simp
qed

section \<open>The keyword path\<close>

lemma same_query_refl [simp]: "same_query a a"
  by (simp add: same_query_def)

lemma same_query_token [simp]: "same_query a (b\<lparr>ExclusiveStartKey := t\<rparr>) = same_query a b"
  by (simp add: same_query_def)










lemma searchKeysById_sends_only:
  "sequence_sends_only (searchKeysById_request env l) (searchKeysById env l)"
  by (simp add: sequence_sends_only_def searchKeysById_def pager_sends_only_def)








section \<open>formatKeys\<close>

lemma yielded_simps [simp]:
  "yielded [] = []" "yielded (x # xs) = Fulfilled (IterValue x) # yielded xs"
  "yielded (xs @ ys) = yielded xs @ yielded ys" "length (yielded xs) = length xs"
  by (simp_all add: yielded_def)

lemma pulls_Suc_Some:
  "pulls nxt (Suc n) s = Some (r # rs, s'') \<longleftrightarrow> (\<exists>s'. nxt s = Some (r, s') \<and> pulls nxt n s' = Some (rs, s''))"
  by (auto split: option.splits prod.splits)

lemma push_chunks_acc:
  "push_chunks cs chunks = (case push_chunks cs [] of Inl c \<Rightarrow> Inl c | Inr bs \<Rightarrow> Inr (chunks @ bs))"
proof (induction cs arbitrary: chunks)
  case Nil
  then show ?case by simp
next
  case (Cons c cs)
  show ?case
    by (simp add: Cons.IH [of "chunks @ [x]" for x] Cons.IH [of "[x]" for x] 
        split: jsval.splits sum.splits)
qed

lemma read_stream_acc:
  "read_stream st chunks = (case read_stream st [] of Inl c \<Rightarrow> Inl c | Inr bs \<Rightarrow> Inr (chunks @ bs))"
  by (cases st) (auto simp: read_stream_def push_chunks_acc [of _ chunks] split: sum.splits option.splits)

lemma formatKeys_loop_done:
  "formatKeys_loop env nxt chunks (IterDone r) s
     = (if isOk r then Some (Inr (ok (formatKeys_response env (concat chunks))), s) else Some (Inr r, s))"
  by (subst formatKeys_loop.simps)
     (simp add: formatKeys_response_def formatKeys_structuredResult_def set_prop_def)

lemma formatKeys_loop_ok:
  "pulls nxt (Suc (length xs)) s = Some (yielded xs @ [Fulfilled (IterDone r)], s')
   \<Longrightarrow> map (\<lambda>st. read_stream st []) (x # xs) = map Inr contents
   \<Longrightarrow> formatKeys_loop env nxt chunks (IterValue x) s
       = formatKeys_loop env nxt (chunks @ concat contents) (IterDone r) s'"
proof (induction xs arbitrary: x s chunks contents)
  case Nil
  then obtain c where c: "contents = [c]" "read_stream x [] = Inr c" by auto
  from Nil.prems(1) have "nxt s = Some (Fulfilled (IterDone r), s')"
    by (auto split: option.splits prod.splits)
  with c show ?case
    by (subst formatKeys_loop.simps) (simp add: read_stream_acc [of x chunks])
next
  case (Cons y ys)
  from Cons.prems(2) obtain c cs where c: "contents = c # cs" "read_stream x [] = Inr c"
      "map (\<lambda>st. read_stream st []) (y # ys) = map Inr cs"
    by auto
  from Cons.prems(1) obtain s1 where s1: "nxt s = Some (Fulfilled (IterValue y), s1)"
      "pulls nxt (Suc (length ys)) s1 = Some (yielded ys @ [Fulfilled (IterDone r)], s')"
    using pulls_Suc_Some [of nxt "length (y # ys)" s "Fulfilled (IterValue y)"
        "yielded ys @ [Fulfilled (IterDone r)]" s']
    by auto
  have "formatKeys_loop env nxt chunks (IterValue x) s
      = formatKeys_loop env nxt (chunks @ c) (IterValue y) s1"
    using c(2) s1(1) by (subst formatKeys_loop.simps) (simp add: read_stream_acc [of x chunks])
  also have "\<dots> = formatKeys_loop env nxt ((chunks @ c) @ concat cs) (IterDone r) s'"
    by (rule Cons.IH [OF s1(2) c(3)])
  finally show ?case by (simp add: c(1))
qed

lemma formatKeys_drained:
  assumes "pulls nxt (Suc (length xs)) s = Some (yielded xs @ [Fulfilled (IterDone r)], s')"
      and "map (\<lambda>st. read_stream st []) xs = map Inr contents"
  shows "formatKeys env nxt s
       = (if isOk r then Some (Inr (ok (formatKeys_response env (concat (concat contents)))), s')
          else Some (Inr r, s'))"
proof (cases xs)
  case Nil
  with assms have "nxt s = Some (Fulfilled (IterDone r), s')" "contents = []"
    by (auto split: option.splits prod.splits)
  then show ?thesis
    by (simp add: formatKeys_def formatKeys_loop_done)
next
  case (Cons x ys)
  with assms(1) obtain s1 where s1: "nxt s = Some (Fulfilled (IterValue x), s1)"
      "pulls nxt (Suc (length ys)) s1 = Some (yielded ys @ [Fulfilled (IterDone r)], s')"
    using pulls_Suc_Some [of nxt "length (x # ys)" s "Fulfilled (IterValue x)"
        "yielded ys @ [Fulfilled (IterDone r)]" s']
    by auto
  from formatKeys_loop_ok [OF s1(2), of x contents env "[]"] assms(2) Cons
  have "formatKeys_loop env nxt [] (IterValue x) s1 = formatKeys_loop env nxt (concat contents) (IterDone r) s'"
    by simp
  with s1(1) show ?thesis
    by (simp add: formatKeys_def formatKeys_loop_done)
qed





section \<open>generateKeyStreams\<close>

lemma generateKeyStreams_skip:
  assumes "keyMetas s = Some (Fulfilled (IterValue keyMeta), s1)"
      and "\<not> isPresent (getKeyDataStream env keyMeta)"
  shows "generateKeyStreams_next env keyMetas (Suspended s)
       = generateKeyStreams_next env keyMetas (Suspended s1)"
proof -
  have "generateKeyStreams_body env keyMetas s = generateKeyStreams_body env keyMetas s1"
    using assms by (subst generateKeyStreams_body.simps) simp
  then show ?thesis
    by (simp add: generateKeyStreams_next_def generator_next_def)
qed

lemma generateKeyStreams_yield:
  assumes "keyMetas s = Some (Fulfilled (IterValue keyMeta), s1)"
      and "isPresent (getKeyDataStream env keyMeta)"
  shows "generateKeyStreams_next env keyMetas (Suspended s)
       = Some (Fulfilled (IterValue (get_prop (getKeyDataStream env keyMeta) ''value'')), Suspended s1)"
  using assms
  by (subst generateKeyStreams_next_def, subst generator_next_def, subst generateKeyStreams_body.simps)
     simp

lemma generateKeyStreams_done:
  assumes "keyMetas s = Some (Fulfilled (IterDone r), s1)"
  shows "generateKeyStreams_next env keyMetas (Suspended s) = Some (Fulfilled (IterDone r), Completed s1)"
  using assms
  by (subst generateKeyStreams_next_def, subst generator_next_def, subst generateKeyStreams_body.simps)
     simp

lemma generateKeyStreams_run:
  "pulls keyMetas (Suc (length kms)) s = Some (yielded kms @ [Fulfilled (IterDone r)], s')
   \<Longrightarrow> pulls (generateKeyStreams_next env keyMetas) (Suc (length (present_streams env kms))) (Suspended s)
       = Some (yielded (present_streams env kms) @ [Fulfilled (IterDone r)], Completed s')"
proof (induction kms arbitrary: s)
  case Nil
  then have "keyMetas s = Some (Fulfilled (IterDone r), s')"
    by (auto split: option.splits prod.splits)
  with generateKeyStreams_done [of keyMetas s r s' env] show ?case
    by (simp add: present_streams_def)
next
  case (Cons km kms)
  from Cons.prems obtain s1 where s1: "keyMetas s = Some (Fulfilled (IterValue km), s1)"
      "pulls keyMetas (Suc (length kms)) s1 = Some (yielded kms @ [Fulfilled (IterDone r)], s')"
    using pulls_Suc_Some [of keyMetas "length (km # kms)" s "Fulfilled (IterValue km)"
        "yielded kms @ [Fulfilled (IterDone r)]" s']
    by auto
  note IH = Cons.IH [OF s1(2)]
  show ?case
  proof (cases "isPresent (getKeyDataStream env km)")
    case True
    with generateKeyStreams_yield [of keyMetas s km s1 env] s1(1) IH show ?thesis
      by (simp add: present_streams_def)
  next
    case False
    with generateKeyStreams_skip [of keyMetas s km s1 env] s1(1) IH show ?thesis
      by (simp add: present_streams_def)
  qed
qed

lemma not_present_cases:
  "isErr x \<or> get_prop x ''value'' = JUndefined \<or> get_prop x ''value'' = JNull \<Longrightarrow> \<not> isPresent x"
  by (auto simp: isErr_def isPresent_def)

lemma hget_keyMetas_run:
  "v \<noteq> JUndefined \<Longrightarrow>
   pulls (generator_next (hget_keyMetas_body (ok v))) (Suc (length [v])) (Suspended False)
     = Some (yielded [v] @ [Fulfilled (IterDone (ok JUndefined))], Completed True)"
  by (simp add: generator_next_def hget_keyMetas_body_def ok_def)

text \<open>
  C6. A key whose stream retrieval returns \<open>Err\<close>, or \<open>Ok\<close> of \<open>undefined\<close> or
  \<open>null\<close>, is skipped: the pull goes on from the state after that key. When the keys
  are \<open>kms\<close> and their sequence terminates with \<open>r\<close>, the sequence of streams yields
  the streams of the keys that have one, in order, and terminates with the same \<open>r\<close>:
  no retrieval failure terminates it. The body \<open>formatKeys\<close> builds holds the bytes
  of those streams only. So in the \<open>get\<close> handler, and in the \<open>hget\<close> handler, where
  a key that was found and has no stream gives \<open>Ok\<close> of a response with an empty
  body.
\<close>

theorem generateKeyStreams_skips:
  "(keyMetas s = Some (Fulfilled (IterValue keyMeta), s1)
      \<and> (isErr (getKeyDataStream env keyMeta)
         \<or> get_prop (getKeyDataStream env keyMeta) ''value'' = JUndefined
         \<or> get_prop (getKeyDataStream env keyMeta) ''value'' = JNull)
    \<longrightarrow> generateKeyStreams_next env keyMetas (Suspended s)
          = generateKeyStreams_next env keyMetas (Suspended s1))
   \<and> (pulls keyMetas (Suc (length kms)) s = Some (yielded kms @ [Fulfilled (IterDone r)], s')
    \<longrightarrow> pulls (generateKeyStreams_next env keyMetas) (Suc (length (present_streams env kms))) (Suspended s)
          = Some (yielded (present_streams env kms) @ [Fulfilled (IterDone r)], Completed s')
        \<and> (map (\<lambda>st. read_stream st []) (present_streams env kms) = map Inr contents \<and> isOk r
           \<longrightarrow> formatKeys env (generateKeyStreams_next env keyMetas) (Suspended s)
                 = Some (Inr (ok (formatKeys_response env (concat (concat contents)))), Completed s')))
   \<and> (pulls (searchKeysByBestGuess_next env) (Suc (length found)) (searchKeysByBestGuess l)
         = Some (yielded found @ [Fulfilled (IterDone r)], g')
       \<and> map (\<lambda>st. read_stream st []) (present_streams env found) = map Inr contents \<and> isOk r
    \<longrightarrow> get_handler env l = Some (Inr (ok (formatKeys_response env (concat (concat contents))))))
   \<and> (HEX_REGEX_match env (search l) = Some m \<and> (length m = 32 \<or> length m = 40 \<or> length m = 64)
       \<and> findKeyByFingerprint env (l\<lparr>search := m\<rparr>) = ok keyMeta \<and> keyMeta \<noteq> JUndefined
       \<and> \<not> isPresent (getKeyDataStream env keyMeta)
    \<longrightarrow> hget_handler env l = Some (Inr (ok (formatKeys_response env []))))"
proof (intro conjI)
  show "keyMetas s = Some (Fulfilled (IterValue keyMeta), s1)
      \<and> (isErr (getKeyDataStream env keyMeta)
         \<or> get_prop (getKeyDataStream env keyMeta) ''value'' = JUndefined
         \<or> get_prop (getKeyDataStream env keyMeta) ''value'' = JNull)
    \<longrightarrow> generateKeyStreams_next env keyMetas (Suspended s)
          = generateKeyStreams_next env keyMetas (Suspended s1)"
    using generateKeyStreams_skip [of keyMetas s keyMeta s1 env] not_present_cases by blast
next
  show "pulls keyMetas (Suc (length kms)) s = Some (yielded kms @ [Fulfilled (IterDone r)], s')
    \<longrightarrow> pulls (generateKeyStreams_next env keyMetas) (Suc (length (present_streams env kms))) (Suspended s)
          = Some (yielded (present_streams env kms) @ [Fulfilled (IterDone r)], Completed s')
        \<and> (map (\<lambda>st. read_stream st []) (present_streams env kms) = map Inr contents \<and> isOk r
           \<longrightarrow> formatKeys env (generateKeyStreams_next env keyMetas) (Suspended s)
                 = Some (Inr (ok (formatKeys_response env (concat (concat contents)))), Completed s'))"
  proof
    assume "pulls keyMetas (Suc (length kms)) s = Some (yielded kms @ [Fulfilled (IterDone r)], s')"
    then have run: "pulls (generateKeyStreams_next env keyMetas) (Suc (length (present_streams env kms))) (Suspended s)
          = Some (yielded (present_streams env kms) @ [Fulfilled (IterDone r)], Completed s')"
      by (rule generateKeyStreams_run)
    with formatKeys_drained [OF run, of contents env]
    show "pulls (generateKeyStreams_next env keyMetas) (Suc (length (present_streams env kms))) (Suspended s)
          = Some (yielded (present_streams env kms) @ [Fulfilled (IterDone r)], Completed s')
        \<and> (map (\<lambda>st. read_stream st []) (present_streams env kms) = map Inr contents \<and> isOk r
           \<longrightarrow> formatKeys env (generateKeyStreams_next env keyMetas) (Suspended s)
                 = Some (Inr (ok (formatKeys_response env (concat (concat contents)))), Completed s'))"
      by simp
  qed
next
  show "pulls (searchKeysByBestGuess_next env) (Suc (length found)) (searchKeysByBestGuess l)
         = Some (yielded found @ [Fulfilled (IterDone r)], g')
       \<and> map (\<lambda>st. read_stream st []) (present_streams env found) = map Inr contents \<and> isOk r
    \<longrightarrow> get_handler env l = Some (Inr (ok (formatKeys_response env (concat (concat contents)))))"
  proof
    assume a: "pulls (searchKeysByBestGuess_next env) (Suc (length found)) (searchKeysByBestGuess l)
         = Some (yielded found @ [Fulfilled (IterDone r)], g')
       \<and> map (\<lambda>st. read_stream st []) (present_streams env found) = map Inr contents \<and> isOk r"
    then have run: "pulls (generateKeyStreams_next env (searchKeysByBestGuess_next env))
                      (Suc (length (present_streams env found))) (Suspended (searchKeysByBestGuess l))
          = Some (yielded (present_streams env found) @ [Fulfilled (IterDone r)], Completed g')"
      using generateKeyStreams_run [of "searchKeysByBestGuess_next env" found "searchKeysByBestGuess l" r g' env]
      by blast
    from formatKeys_drained [OF run, of contents env] a
    show "get_handler env l = Some (Inr (ok (formatKeys_response env (concat (concat contents)))))"
      by (simp add: get_handler_def)
  qed
next
  show "HEX_REGEX_match env (search l) = Some m \<and> (length m = 32 \<or> length m = 40 \<or> length m = 64)
       \<and> findKeyByFingerprint env (l\<lparr>search := m\<rparr>) = ok keyMeta \<and> keyMeta \<noteq> JUndefined
       \<and> \<not> isPresent (getKeyDataStream env keyMeta)
    \<longrightarrow> hget_handler env l = Some (Inr (ok (formatKeys_response env [])))"
  proof
    assume a: "HEX_REGEX_match env (search l) = Some m \<and> (length m = 32 \<or> length m = 40 \<or> length m = 64)
       \<and> findKeyByFingerprint env (l\<lparr>search := m\<rparr>) = ok keyMeta \<and> keyMeta \<noteq> JUndefined
       \<and> \<not> isPresent (getKeyDataStream env keyMeta)"
    let ?inner = "generator_next (hget_keyMetas_body (ok keyMeta))"
    from a have "pulls ?inner (Suc (length [keyMeta])) (Suspended False)
          = Some (yielded [keyMeta] @ [Fulfilled (IterDone (ok JUndefined))], Completed True)"
      using hget_keyMetas_run by blast
    from generateKeyStreams_run [OF this, of env] a
    have run: "pulls (generateKeyStreams_next env ?inner) (Suc (length ([] :: jsval list))) (Suspended (Suspended False))
          = Some (yielded [] @ [Fulfilled (IterDone (ok JUndefined))], Completed (Completed True))"
      by (simp add: present_streams_def)
    from formatKeys_drained [OF run, of "[]" env]
    have "formatKeys env (generateKeyStreams_next env ?inner) (Suspended (Suspended False))
        = Some (Inr (ok (formatKeys_response env [])), Completed (Completed True))"
      by (simp add: isOk_ok)
    with a show "hget_handler env l = Some (Inr (ok (formatKeys_response env [])))"
      by (auto simp: hget_handler_def Let_def not_isErr_ok)
  qed
qed

lemma demo_streams:
  "getKeyDataStream (demo_env\<lparr>S3_send := demo_bucket\<rparr>) demo_alice = err (JStr ''NoSuchKey'')"
  "getKeyDataStream (demo_env\<lparr>S3_send := demo_bucket\<rparr>) demo_bob
     = ok (JReadable [JBuffer ''-----BEGIN PGP'', JStr '' PUBLIC KEY-----''] None)"
  by (simp_all add: getKeyDataStream_def AsyncResult_run_def demo_bucket_def demo_alice_def demo_bob_def
      demo_env_def)

lemma demo_present_streams:
  "present_streams (demo_env\<lparr>S3_send := demo_bucket\<rparr>) [demo_alice, demo_bob]
     = [JReadable [JBuffer ''-----BEGIN PGP'', JStr '' PUBLIC KEY-----''] None]"
  by (simp add: present_streams_def demo_streams not_isPresent_err)
     (simp add: isPresent_def ok_def)

lemma demo_extract:
  "extractKeyMetadata (demo_item ''0011223344556677'' ''AABBCCDD'' ''alice'') = Inr demo_alice"
  "extractKeyMetadata (demo_item ''0011223344556677'' ''EEFF0011'' ''bob'') = Inr demo_bob"
  by (simp_all add: extractKeyMetadata_def demo_item_def unfoldAttributes_def unfoldAttribute_def
      set_prop_def delete_prop_def demo_alice_def demo_bob_def)

lemma demo_id_search:
  "\<exists>g'. pulls (searchKeysByBestGuess_next (demo_env\<lparr>S3_send := demo_bucket\<rparr>)) (Suc (length [demo_alice, demo_bob]))
           (searchKeysByBestGuess (demo_lookup ''0011223344556677''))
         = Some (yielded [demo_alice, demo_bob] @ [Fulfilled (IterDone (ok JUndefined))], g')"
  by (simp add: searchKeysByBestGuess_next_def searchKeysByBestGuess_def generator_next_def
      searchKeysByBestGuess_body_def demo_env_def demo_lookup_def HEX_REGEX_def is_hex_digit_def
      yield_star_def searchKeys_next_def AsyncResultGenerator_from_def searchKeysById_def
      pager_body.simps demo_table_def searchKeysById_request_def response_Items_def demo_extract)


theorem generateKeyStreams_skips_witness:
  "generateKeyStreams_next (demo_env\<lparr>S3_send := demo_bucket\<rparr>)
       (generator_next (array_body [demo_alice, demo_bob] (ok JUndefined))) (Suspended (Suspended 0))
     = generateKeyStreams_next (demo_env\<lparr>S3_send := demo_bucket\<rparr>)
         (generator_next (array_body [demo_alice, demo_bob] (ok JUndefined))) (Suspended (Suspended 1))
   \<and> pulls (generateKeyStreams_next (demo_env\<lparr>S3_send := demo_bucket\<rparr>)
              (generator_next (array_body [demo_alice, demo_bob] (ok JUndefined)))) 2 (Suspended (Suspended 0))
     = Some ([Fulfilled (IterValue (JReadable [JBuffer ''-----BEGIN PGP'', JStr '' PUBLIC KEY-----''] None)),
              Fulfilled (IterDone (ok JUndefined))], Completed (Completed 2))
   \<and> formatKeys (demo_env\<lparr>S3_send := demo_bucket\<rparr>)
         (generateKeyStreams_next (demo_env\<lparr>S3_send := demo_bucket\<rparr>)
            (generator_next (array_body [demo_alice, demo_bob] (ok JUndefined)))) (Suspended (Suspended 0))
     = Some (Inr (ok (formatKeys_response demo_env ''-----BEGIN PGP PUBLIC KEY-----'')), Completed (Completed 2))
   \<and> get_handler (demo_env\<lparr>S3_send := demo_bucket\<rparr>) (demo_lookup ''0011223344556677'')
     = Some (Inr (ok (formatKeys_response demo_env ''-----BEGIN PGP PUBLIC KEY-----'')))
   \<and> hget_handler (demo_env\<lparr>DYNAMO_send := demo_key_table, S3_send := demo_bucket\<rparr>)
         (demo_lookup ''0xAABBCCDDAABBCCDD0011223344556677'')
     = Some (Inr (ok (formatKeys_response demo_env [])))"
proof -
  let ?env = "demo_env\<lparr>S3_send := demo_bucket\<rparr>"
  let ?env2 = "demo_env\<lparr>DYNAMO_send := demo_key_table, S3_send := demo_bucket\<rparr>"
  let ?keys = "generator_next (array_body [demo_alice, demo_bob] (ok JUndefined))"
  let ?stream = "JReadable [JBuffer ''-----BEGIN PGP'', JStr '' PUBLIC KEY-----''] None"
  let ?contents = "[[''-----BEGIN PGP'', '' PUBLIC KEY-----'']]"
  have r: "formatKeys_response ?env = formatKeys_response demo_env"
          "formatKeys_response ?env2 = formatKeys_response demo_env"
    by (rule ext, simp add: formatKeys_response_def)+
  have skip: "?keys (Suspended 0) = Some (Fulfilled (IterValue demo_alice), Suspended 1)
      \<and> (isErr (getKeyDataStream ?env demo_alice)
         \<or> get_prop (getKeyDataStream ?env demo_alice) ''value'' = JUndefined
         \<or> get_prop (getKeyDataStream ?env demo_alice) ''value'' = JNull)"
    by (simp add: generator_next_def array_body_def demo_streams isErr_err)
  have keys: "pulls ?keys (Suc (length [demo_alice, demo_bob])) (Suspended 0)
       = Some (yielded [demo_alice, demo_bob] @ [Fulfilled (IterDone (ok JUndefined))], Completed 2)"
    by (simp add: generator_next_def array_body_def)
  have read: "map (\<lambda>st. read_stream st []) (present_streams ?env [demo_alice, demo_bob]) = map Inr ?contents
              \<and> isOk (ok JUndefined)"
    by (simp add: demo_present_streams read_stream_def Buffer_from_def isOk_ok)
  obtain g' where found: "pulls (searchKeysByBestGuess_next ?env) (Suc (length [demo_alice, demo_bob]))
           (searchKeysByBestGuess (demo_lookup ''0011223344556677''))
         = Some (yielded [demo_alice, demo_bob] @ [Fulfilled (IterDone (ok JUndefined))], g')"
    using demo_id_search by blast
  have hget: "HEX_REGEX_match ?env2 (search (demo_lookup ''0xAABBCCDDAABBCCDD0011223344556677''))
                = Some ''AABBCCDDAABBCCDD0011223344556677''
       \<and> (length ''AABBCCDDAABBCCDD0011223344556677'' = 32 \<or> length ''AABBCCDDAABBCCDD0011223344556677'' = 40
            \<or> length ''AABBCCDDAABBCCDD0011223344556677'' = 64)
       \<and> findKeyByFingerprint ?env2 ((demo_lookup ''0xAABBCCDDAABBCCDD0011223344556677'')
                                          \<lparr>search := ''AABBCCDDAABBCCDD0011223344556677''\<rparr>) = ok demo_alice
       \<and> demo_alice \<noteq> JUndefined
       \<and> \<not> isPresent (getKeyDataStream ?env2 demo_alice)"
    by (simp add: demo_env_def demo_lookup_def HEX_REGEX_def is_hex_digit_def findKeyByFingerprint_def
        demo_key_table_def AsyncResult_run_def demo_extract getKeyDataStream_def demo_bucket_def
        not_isPresent_err)
       (simp add: demo_alice_def)
  note inst1 = generateKeyStreams_skips [where env = ?env and keyMetas = ?keys and s = "Suspended 0"
      and keyMeta = demo_alice and ?s1.0 = "Suspended 1" and kms = "[demo_alice, demo_bob]"
      and r = "ok JUndefined" and s' = "Completed 2" and contents = ?contents
      and found = "[demo_alice, demo_bob]" and l = "demo_lookup ''0011223344556677''" and g' = g']
  note inst2 = generateKeyStreams_skips [where env = ?env2
      and l = "demo_lookup ''0xAABBCCDDAABBCCDD0011223344556677''"
      and m = "''AABBCCDDAABBCCDD0011223344556677''" and keyMeta = demo_alice]
  note 1 = inst1 [THEN conjunct1, THEN mp, OF skip]
  note 23 = inst1 [THEN conjunct2, THEN conjunct1, THEN mp, OF keys]
  note 2 = 23 [THEN conjunct1]
  note 3 = 23 [THEN conjunct2, THEN mp, OF read]
  note 4 = inst1 [THEN conjunct2, THEN conjunct2, THEN conjunct1, THEN mp, OF conjI [OF found read]]
  note 5 = inst2 [THEN conjunct2, THEN conjunct2, THEN conjunct2, THEN mp, OF hget]
  have two: "Suc (length [?stream]) = 2" by simp
  have 2: "pulls (generateKeyStreams_next ?env ?keys) 2 (Suspended (Suspended 0))
     = Some ([Fulfilled (IterValue ?stream), Fulfilled (IterDone (ok JUndefined))], Completed (Completed 2))"
    using 2 [unfolded demo_present_streams two] by (simp del: pulls.simps)
  from 1 2 3 4 5 show ?thesis
    by (simp add: r del: pulls.simps)
qed

section \<open>formatIndices in JSON mode\<close>

lemma formatJsonIndices_loop_done:
  "formatJsonIndices_loop env nxt indices (IterDone r) s
     = (if isErr r then Some (Inr r, s) else Some (Inr (ok (JStr (JSON_stringify env (JObj indices)))), s))"
  by (subst formatJsonIndices_loop.simps) simp

lemma formatJsonIndices_loop_run:
  "pulls nxt (Suc (length xs)) s = Some (yielded xs @ [Fulfilled (IterDone r)], s')
   \<Longrightarrow> formatJsonIndices_loop env nxt indices (IterValue x) s
       = formatJsonIndices_loop env nxt
           (fold (\<lambda>keyMeta. set_prop (fingerprint_key keyMeta) keyMeta) (x # xs) indices) (IterDone r) s'"
proof (induction xs arbitrary: x s indices)
  case Nil
  then have "nxt s = Some (Fulfilled (IterDone r), s')"
    by (auto split: option.splits prod.splits)
  then show ?case
    by (subst formatJsonIndices_loop.simps) (simp add: fingerprint_key_def)
next
  case (Cons y ys)
  from Cons.prems obtain s1 where s1: "nxt s = Some (Fulfilled (IterValue y), s1)"
      "pulls nxt (Suc (length ys)) s1 = Some (yielded ys @ [Fulfilled (IterDone r)], s')"
    using pulls_Suc_Some [of nxt "length (y # ys)" s "Fulfilled (IterValue y)"
        "yielded ys @ [Fulfilled (IterDone r)]" s']
    by auto
  have "formatJsonIndices_loop env nxt indices (IterValue x) s
      = formatJsonIndices_loop env nxt (set_prop (fingerprint_key x) x indices) (IterValue y) s1"
    using s1(1) by (subst formatJsonIndices_loop.simps) (simp add: fingerprint_key_def)
  also note Cons.IH [OF s1(2)]
  finally show ?case by simp
qed

lemma formatJsonIndices_drained:
  assumes "pulls nxt (Suc (length xs)) s = Some (yielded xs @ [Fulfilled (IterDone r)], s')"
  shows "formatJsonIndices env nxt s
       = (if isErr r then Some (Inr r, s')
          else Some (Inr (ok (JStr (JSON_stringify env (JObj (index_by_fingerprint xs))))), s'))"
proof (cases xs)
  case Nil
  with assms have "nxt s = Some (Fulfilled (IterDone r), s')"
    by (auto split: option.splits prod.splits)
  then show ?thesis
    by (simp add: formatJsonIndices_def formatJsonIndices_loop_done Nil index_by_fingerprint_def)
next
  case (Cons x ys)
  with assms obtain s1 where s1: "nxt s = Some (Fulfilled (IterValue x), s1)"
      "pulls nxt (Suc (length ys)) s1 = Some (yielded ys @ [Fulfilled (IterDone r)], s')"
    using pulls_Suc_Some [of nxt "length (x # ys)" s "Fulfilled (IterValue x)"
        "yielded ys @ [Fulfilled (IterDone r)]" s']
    by auto
  from formatJsonIndices_loop_run [OF s1(2), of env "[]" x] s1(1) show ?thesis
    by (simp add: formatJsonIndices_def formatJsonIndices_loop_done Cons index_by_fingerprint_def)
qed

lemma map_of_set_prop:
  "map_of (set_prop k v props) = (if k = ''__proto__'' then map_of props else (map_of props)(k \<mapsto> v))"
  by (simp add: set_prop_def update_conv')

lemma distinct_set_prop:
  "distinct (map fst props) \<Longrightarrow> distinct (map fst (set_prop k v props))"
  by (simp add: set_prop_def distinct_update)

lemma distinct_index: "distinct (map fst (index_by_fingerprint kms))"
proof -
  have "distinct (map fst acc) \<Longrightarrow>
        distinct (map fst (fold (\<lambda>keyMeta. set_prop (fingerprint_key keyMeta) keyMeta) kms acc))" for acc
    by (induction kms arbitrary: acc) (simp_all add: distinct_set_prop)
  from this [of "[]"] show ?thesis by (simp add: index_by_fingerprint_def)
qed

lemma index_snoc:
  "index_by_fingerprint (kms @ [km]) = set_prop (fingerprint_key km) km (index_by_fingerprint kms)"
  by (simp add: index_by_fingerprint_def)

lemma map_of_index:
  "km \<in> set kms \<Longrightarrow> fingerprint_key km \<noteq> ''__proto__''
   \<Longrightarrow> map_of (index_by_fingerprint kms) (fingerprint_key km)
       = Some (last (filter (\<lambda>k. fingerprint_key k = fingerprint_key km) kms))"
proof (induction kms rule: rev_induct)
  case Nil
  then show ?case by simp
next
  case (snoc x xs)
  show ?case
  proof (cases "fingerprint_key x = fingerprint_key km")
    case True
    with snoc.prems(2) show ?thesis
      by (simp add: index_snoc map_of_set_prop)
  next
    case False
    with snoc.prems have "km \<in> set xs" by auto
    with snoc.IH snoc.prems(2) False show ?thesis
      by (auto simp: index_snoc map_of_set_prop)
  qed
qed

lemma keys_of_index:
  "fst ` set (index_by_fingerprint kms) = fingerprint_key ` set kms - {''__proto__''}"
proof (induction kms rule: rev_induct)
  case Nil
  then show ?case by (simp add: index_by_fingerprint_def)
next
  case (snoc x xs)
  have "fst ` set (set_prop k v props) = (if k = ''__proto__'' then fst ` set props else insert k (fst ` set props))"
    for k v and props :: "(string \<times> jsval) list"
    using dom_update [of k v props] by (simp add: set_prop_def dom_map_of_conv_image_fst)
  with snoc show ?case
    by (auto simp: index_snoc)
qed

text \<open>
  C9. With the options selecting JSON (\<open>json\<close> given, \<open>mr\<close> not given) and a sequence
  that yields the records \<open>kms\<close> and terminates without \<open>Err\<close>, \<open>formatIndices\<close>
  fulfils with \<open>Ok\<close> of a response whose content type is \<open>application/json\<close> and
  whose body is the serialization of the mapping built from the records. The mapping has
  one entry per fingerprint, and the entry of a fingerprint is the last record that has
  it; two records with one fingerprint leave a single entry, the second record. (The
  property name \<open>__proto__\<close>, which no fingerprint is, names no entry.)
\<close>

theorem formatIndices_json:
  assumes "options l = Some opts" and "''json'' \<in> set opts" and "''mr'' \<notin> set opts"
      and "pulls keyMetas (Suc (length kms)) s = Some (yielded kms @ [Fulfilled (IterDone r)], s')"
      and "\<not> isErr r"
  shows "formatIndices env l keyMetas s
           = Some (Inr (ok (JObj [(''statusCode'', HTTPStatusCode_OK env),
                                  (''headers'', JObj [(''Content-Type'', JStr ''application/json'')]),
                                  (''body'', JStr (JSON_stringify env (JObj (index_by_fingerprint kms))))])), s')
         \<and> distinct (map fst (index_by_fingerprint kms))
         \<and> fst ` set (index_by_fingerprint kms) = fingerprint_key ` set kms - {''__proto__''}
         \<and> (\<forall>km \<in> set kms. fingerprint_key km \<noteq> ''__proto__''
               \<longrightarrow> map_of (index_by_fingerprint kms) (fingerprint_key km)
                   = Some (last (filter (\<lambda>k. fingerprint_key k = fingerprint_key km) kms)))
         \<and> (kms = [a, b] \<and> fingerprint_key a = fingerprint_key b \<and> fingerprint_key b \<noteq> ''__proto__''
               \<longrightarrow> index_by_fingerprint kms = [(fingerprint_key b, b)])"
proof -
  have json: "\<not> isMachine l"
    using assms(1-3) by (simp add: isMachine_def)
  have "formatJsonIndices env keyMetas s
       = Some (Inr (ok (JStr (JSON_stringify env (JObj (index_by_fingerprint kms))))), s')"
    using formatJsonIndices_drained [OF assms(4), of env] assms(5) by simp
  with json have 1: "formatIndices env l keyMetas s
           = Some (Inr (ok (JObj [(''statusCode'', HTTPStatusCode_OK env),
                                  (''headers'', JObj [(''Content-Type'', JStr ''application/json'')]),
                                  (''body'', JStr (JSON_stringify env (JObj (index_by_fingerprint kms))))])), s')"
    by (simp add: formatIndices_def not_isErr_ok value_ok set_prop_def)
  have 2: "index_by_fingerprint kms = [(fingerprint_key b, b)]"
    if "kms = [a, b] \<and> fingerprint_key a = fingerprint_key b \<and> fingerprint_key b \<noteq> ''__proto__''"
    using that by (simp add: index_by_fingerprint_def set_prop_def)
  from 1 2 distinct_index [of kms] keys_of_index [of kms] map_of_index [of _ kms]
  show ?thesis by blast
qed

theorem formatIndices_json_witness:
  "formatIndices demo_env ((demo_lookup ''alice'')\<lparr>options := Some [''json'']\<rparr>)
       (generator_next (array_body [demo_alice, demo_alice_renamed] (ok JUndefined))) (Suspended 0)
     = Some (Inr (ok (JObj [(''statusCode'', JNum 200),
                            (''headers'', JObj [(''Content-Type'', JStr ''application/json'')]),
                            (''body'', JStr (JSON_stringify demo_env
                                 (JObj [(''AABBCCDD0011223344556677'', demo_alice_renamed)])))])),
             Completed 2)
   \<and> index_by_fingerprint [demo_alice, demo_alice_renamed]
       = [(''AABBCCDD0011223344556677'', demo_alice_renamed)]
   \<and> map_of (index_by_fingerprint [demo_alice, demo_alice_renamed]) ''AABBCCDD0011223344556677''
       = Some demo_alice_renamed"
proof -
  let ?l = "(demo_lookup ''alice'')\<lparr>options := Some [''json'']\<rparr>"
  let ?keys = "generator_next (array_body [demo_alice, demo_alice_renamed] (ok JUndefined))"
  have run: "pulls ?keys (Suc (length [demo_alice, demo_alice_renamed])) (Suspended 0)
       = Some (yielded [demo_alice, demo_alice_renamed] @ [Fulfilled (IterDone (ok JUndefined))], Completed 2)"
    by (simp add: generator_next_def array_body_def)
  have fp: "fingerprint_key demo_alice = ''AABBCCDD0011223344556677''"
    "fingerprint_key demo_alice_renamed = ''AABBCCDD0011223344556677''"
    by (simp_all add: fingerprint_key_def demo_alice_def demo_alice_renamed_def)
  have same: "[demo_alice, demo_alice_renamed] = [demo_alice, demo_alice_renamed]
      \<and> fingerprint_key demo_alice = fingerprint_key demo_alice_renamed
      \<and> fingerprint_key demo_alice_renamed \<noteq> ''__proto__''"
    by (simp add: fp)
  note inst = formatIndices_json [where l = ?l and opts = "[''json'']" and keyMetas = ?keys
      and kms = "[demo_alice, demo_alice_renamed]" and s = "Suspended 0" and r = "ok JUndefined"
      and s' = "Completed 2" and env = demo_env and a = demo_alice and b = demo_alice_renamed,
      OF _ _ _ run not_isErr_ok]
  have inst': "formatIndices demo_env ?l ?keys (Suspended 0)
           = Some (Inr (ok (JObj [(''statusCode'', HTTPStatusCode_OK demo_env),
                                  (''headers'', JObj [(''Content-Type'', JStr ''application/json'')]),
                                  (''body'', JStr (JSON_stringify demo_env
                                      (JObj (index_by_fingerprint [demo_alice, demo_alice_renamed]))))])), Completed 2)"
     and idx: "index_by_fingerprint [demo_alice, demo_alice_renamed] = [(fingerprint_key demo_alice_renamed, demo_alice_renamed)]"
    using inst same by (simp_all add: demo_lookup_def)
  have ok: "HTTPStatusCode_OK demo_env = JNum 200" by (simp add: demo_env_def)
  from inst' idx show ?thesis
    by (simp add: fp ok)
qed

end
